theory Spec2Isabelle
  imports Main "HOL-Library.Sublist"
begin

section \<open>JavaScript values and strings\<close>

text \<open>
  The lookup builder is the script that builds the parcel lookup and the commune lookup
  from the GeoJSON parcel files (the variant with the registry of official communes and
  the spelling variant map). Its features carry a free-form property bag. The model takes
  the values of a bag to be JSON scalars (nested arrays and objects are outside it);
  reading a key that is absent gives \<^verbatim>\<open>undefined\<close>. A number is represented by the text
  that \<^verbatim>\<open>String\<close> gives for it, so that no floating point arithmetic is needed: the only
  falsy numbers that \<^verbatim>\<open>JSON.parse\<close> produces are the two zeros, both printed as \<^verbatim>\<open>0\<close>.
  A string is the list of the bytes of its UTF-8 encoding, so that a character outside
  ASCII is several bytes. \<^verbatim>\<open>String.prototype.trim\<close> and \<^verbatim>\<open>String.prototype.toUpperCase\<close>
  are library functions over all of Unicode: the helper functions that call them take
  them as the parameters \<open>tr\<close> and \<open>up\<close>, and what is proved of the helpers is proved for
  every such pair. The definitions \<open>trim\<close> and \<open>toUpperCase\<close> below are the two library
  functions on ASCII text; the builder is run with them, on examples in ASCII.
\<close>

datatype jsval = JUndefined | JNull | JBool bool | JNumber string | JString string

fun truthy :: "jsval \<Rightarrow> bool" where
  "truthy JUndefined = False"
| "truthy JNull = False"
| "truthy (JBool b) = b"
| "truthy (JNumber t) = (t \<noteq> ''0'')"
| "truthy (JString s) = (s \<noteq> [])"

text \<open>\<^verbatim>\<open>String(v)\<close> on a scalar.\<close>

fun ToString :: "jsval \<Rightarrow> string" where
  "ToString JUndefined = ''undefined''"
| "ToString JNull = ''null''"
| "ToString (JBool b) = (if b then ''true'' else ''false'')"
| "ToString (JNumber t) = t"
| "ToString (JString s) = s"

text \<open>\<^verbatim>\<open>a || b\<close>\<close>

definition js_or :: "jsval \<Rightarrow> jsval \<Rightarrow> jsval" where
  "js_or a b = (if truthy a then a else b)"

text \<open>A value that is \<^verbatim>\<open>null\<close> or a string, as \<^verbatim>\<open>normalizeName\<close> returns it, is truthy
  when it is a non-empty string.\<close>

fun truthy_str :: "string option \<Rightarrow> bool" where
  "truthy_str None = False"
| "truthy_str (Some s) = (s \<noteq> [])"

text \<open>
  The library on ASCII text. Of the characters that \<^verbatim>\<open>trim\<close> strips (the white space and
  line terminator characters of the language), six are ASCII: tab, line feed, vertical
  tab, form feed, carriage return and space. Of the characters that \<^verbatim>\<open>toUpperCase\<close>
  changes, the ASCII ones are the letters \<^verbatim>\<open>a\<close> to \<^verbatim>\<open>z\<close>. On a text with a character outside
  ASCII the two library functions can do more than \<open>trim\<close> and \<open>toUpperCase\<close> here (strip a
  no-break space, map an accented letter); what is claimed below of the canonicalizer and
  of the extractor for every text is stated for the parameters \<open>tr\<close> and \<open>up\<close>.
\<close>

definition is_space :: "char \<Rightarrow> bool" where
  "is_space c = (c \<in> set [CHR 0x09, CHR 0x0A, CHR 0x0B, CHR 0x0C, CHR 0x0D, CHR '' ''])"

definition trim :: "string \<Rightarrow> string" where
  "trim s = rev (dropWhile is_space (rev (dropWhile is_space s)))"

definition toUpperCase_char :: "char \<Rightarrow> char" where
  "toUpperCase_char c =
     (case map_of (zip ''abcdefghijklmnopqrstuvwxyz'' ''ABCDEFGHIJKLMNOPQRSTUVWXYZ'') c of
        Some u \<Rightarrow> u
      | None \<Rightarrow> c)"

definition toUpperCase :: "string \<Rightarrow> string" where
  "toUpperCase s = map toUpperCase_char s"

text \<open>\<^verbatim>\<open>s.includes(t)\<close>: \<open>t\<close> occurs in \<open>s\<close> as a contiguous substring.\<close>

fun str_includes :: "string \<Rightarrow> string \<Rightarrow> bool" where
  "str_includes [] t = (t = [])"
| "str_includes (c # cs) t = (prefix t (c # cs) \<or> str_includes cs t)"

text \<open>\<^verbatim>\<open>commune.replace(/ /g, '_')\<close>\<close>

definition replace_spaces :: "string \<Rightarrow> string" where
  "replace_spaces s = map (\<lambda>c. if c = CHR '' '' then CHR ''_'' else c) s"

section \<open>Configuration\<close>

definition OFFICIAL_COMMUNES :: "string list" where
  "OFFICIAL_COMMUNES =
     [''BALLOU'', ''GABOU'', ''MOUDERY'', ''BALA'', ''KOAR'', ''SINTHIOU MALEME'',
      ''NDOGA BABACAR'', ''NETTEBOULOU'', ''MISSIRAH'', ''BANDAFASSI'', ''DINDEFELO'',
      ''TOMBORONKOTO'', ''DIMBOLI'', ''FONGOLIMBI'', ''MEDINA BAFFE'', ''BEMBOU'',
      ''SABODALA'']"

definition COMMUNE_SPELLING_VARIANTS :: "(string \<times> string) list" where
  "COMMUNE_SPELLING_VARIANTS =
     [(''DINDEFELLO'', ''DINDEFELO''), (''FONGOLEMBI'', ''FONGOLIMBI'')]"

section \<open>Objects\<close>

text \<open>
  A property bag is the map of its own properties. \<^verbatim>\<open>props[k]\<close> reads the own property
  when there is one and follows the prototype chain otherwise. The builder reads the keys
  of fixed lists only, none of which is a built-in property of \<^verbatim>\<open>Object.prototype\<close>, so an
  absent key reads \<^verbatim>\<open>undefined\<close>, with one exception: the builder itself can assign
  \<^verbatim>\<open>Object.prototype.commune\<close> (see \<open>record_sighting\<close>), and from then on a bag without an
  own \<^verbatim>\<open>commune\<close> reads that value. The value assigned, if any, is carried in the state
  and passed to the reads as \<open>inh\<close>.
\<close>

type_synonym props = "string \<rightharpoonup> jsval"

definition get :: "props \<Rightarrow> string \<Rightarrow> jsval" where
  "get props k = (case props k of Some v \<Rightarrow> v | None \<Rightarrow> JUndefined)"

definition get_commune :: "string option \<Rightarrow> props \<Rightarrow> jsval" where
  "get_commune inh props =
     (case props ''commune'' of
        Some v \<Rightarrow> v
      | None \<Rightarrow> (case inh of Some c \<Rightarrow> JString c | None \<Rightarrow> JUndefined))"

text \<open>The names that every object inherits from \<^verbatim>\<open>Object.prototype\<close>: with one of them as
  key, \<^verbatim>\<open>obj[key]\<close> is a built-in function (or, for \<^verbatim>\<open>__proto__\<close>, the prototype object
  itself) unless the object has an own property of that name.\<close>

definition Object_prototype_names :: "string list" where
  "Object_prototype_names =
     [''constructor'', ''__defineGetter__'', ''__defineSetter__'', ''hasOwnProperty'',
      ''__lookupGetter__'', ''__lookupSetter__'', ''isPrototypeOf'',
      ''propertyIsEnumerable'', ''toString'', ''valueOf'', ''__proto__'',
      ''toLocaleString'']"

text \<open>\<^verbatim>\<open>obj[k]\<close> for an object without an own property \<open>k\<close> is truthy exactly when \<open>k\<close> is
  inherited: a built-in name, or \<^verbatim>\<open>commune\<close> once \<^verbatim>\<open>Object.prototype.commune\<close> has been
  assigned (only truthy strings are assigned to it).\<close>

definition inherited :: "string option \<Rightarrow> string \<Rightarrow> bool" where
  "inherited inh k = (k \<in> set Object_prototype_names \<or> (k = ''commune'' \<and> truthy_str inh))"

text \<open>The keys that can be inherited in some state of a run.\<close>

definition may_be_inherited :: "string \<Rightarrow> bool" where
  "may_be_inherited k = (k \<in> set Object_prototype_names \<or> k = ''commune'')"

section \<open>The helper functions of the builder\<close>

text \<open>\<^verbatim>\<open>normalizeName\<close>, lines 60 to 70, with the library's \<^verbatim>\<open>trim\<close> and \<^verbatim>\<open>toUpperCase\<close> as
  \<open>tr\<close> and \<open>up\<close>.\<close>

definition normalizeName_with ::
    "(string \<Rightarrow> string) \<Rightarrow> (string \<Rightarrow> string) \<Rightarrow> jsval \<Rightarrow> string option" where
  "normalizeName_with tr up v =
     (if \<not> truthy v then None
      else
        let normalized = up (tr (ToString v)) in
        case map_of COMMUNE_SPELLING_VARIANTS normalized of
          Some canonical \<Rightarrow> if canonical \<noteq> [] then Some canonical else Some normalized
        | None \<Rightarrow> Some normalized)"

definition normalizeName :: "jsval \<Rightarrow> string option" where
  "normalizeName v = normalizeName_with trim toUpperCase v"

fun first_truthy :: "props \<Rightarrow> string list \<Rightarrow> string option" where
  "first_truthy props [] = None"
| "first_truthy props (k # ks) =
     (if truthy (get props k) then Some (ToString (get props k)) else first_truthy props ks)"

definition findNumParcel :: "props \<Rightarrow> string option" where
  "findNumParcel props =
     first_truthy props
       [''Num_parcel'', ''NUM_PARCEL'', ''num_parcel'', ''numParcel'', ''num'', ''ID'', ''id'',
        ''Id_parcel'', ''IDPARCEL'']"

text \<open>\<^verbatim>\<open>extractCommuneFromSourceFile\<close>, lines 78 to 99, with the library's \<^verbatim>\<open>toUpperCase\<close>
  as \<open>up\<close>.\<close>

definition extractCommuneFromSourceFile_with :: "(string \<Rightarrow> string) \<Rightarrow> jsval \<Rightarrow> string option" where
  "extractCommuneFromSourceFile_with up sourceFile =
     (if \<not> truthy sourceFile then None
      else
        let normalized = up (ToString sourceFile) in
        case List.find (\<lambda>c. str_includes normalized c) OFFICIAL_COMMUNES of
          Some c \<Rightarrow> Some c
        | None \<Rightarrow>
            List.find (\<lambda>c. str_includes normalized (replace_spaces c)) OFFICIAL_COMMUNES)"

definition extractCommuneFromSourceFile :: "jsval \<Rightarrow> string option" where
  "extractCommuneFromSourceFile sourceFile =
     extractCommuneFromSourceFile_with toUpperCase sourceFile"

text \<open>The commune of a feature, lines 136 to 148 of \<^verbatim>\<open>main\<close>.\<close>

definition direct_commune_value :: "string option \<Rightarrow> props \<Rightarrow> jsval" where
  "direct_commune_value inh props =
     js_or (get_commune inh props)
       (js_or (get props ''CCRCA'')
         (js_or (get props ''CCRCA_1'')
           (js_or (get props ''CAV'')
             (js_or (get props ''Nom'') (get props ''name'')))))"

definition extract_commune_with ::
    "(string \<Rightarrow> string) \<Rightarrow> (string \<Rightarrow> string) \<Rightarrow> string option \<Rightarrow> props \<Rightarrow> string option" where
  "extract_commune_with tr up inh props =
     (let c = normalizeName_with tr up (direct_commune_value inh props) in
      if \<not> truthy_str c \<and> truthy (get props ''source_file'')
      then extractCommuneFromSourceFile_with up (get props ''source_file'')
      else c)"

definition extract_commune :: "string option \<Rightarrow> props \<Rightarrow> string option" where
  "extract_commune inh props = extract_commune_with trim toUpperCase inh props"

section \<open>The two lookups\<close>

record parcel_record =
  commune :: "string option"
  properties :: props

record aggregate =
  count :: nat
  parcels :: "string list"

record builder =
  numParcelMap :: "string \<rightharpoonup> parcel_record"
  communeMap :: "string \<rightharpoonup> aggregate"
  prototype_commune :: "string option"

text \<open>
  Lines 155 to 159. \<^verbatim>\<open>numParcelMap[num]\<close> is truthy when the map has an own record for
  \<open>num\<close>, and also when \<open>num\<close> is inherited: then no record is created, and the
  assignment of line 158 goes to the inherited value. For \<^verbatim>\<open>__proto__\<close> that value is
  \<^verbatim>\<open>Object.prototype\<close> itself, whose new \<^verbatim>\<open>commune\<close> property every object then inherits;
  for the other built-in names it is a function, which nothing else reads; for an inherited
  \<^verbatim>\<open>commune\<close> it is a string, whose \<^verbatim>\<open>commune\<close> is inherited and truthy in turn, so that
  nothing is assigned.
\<close>

definition record_sighting :: "builder \<Rightarrow> string \<Rightarrow> string option \<Rightarrow> props \<Rightarrow> builder" where
  "record_sighting st num c props =
     (case numParcelMap st num of
        Some r \<Rightarrow>
          if \<not> truthy_str (commune r) \<and> truthy_str c
          then st\<lparr>numParcelMap := (numParcelMap st)(num \<mapsto> r\<lparr>commune := c\<rparr>)\<rparr>
          else st
      | None \<Rightarrow>
          if inherited (prototype_commune st) num then
            (if num = ''__proto__'' \<and> \<not> truthy_str (prototype_commune st) \<and> truthy_str c
             then st\<lparr>prototype_commune := c\<rparr> else st)
          else
            st\<lparr>numParcelMap := (numParcelMap st)
                 (num \<mapsto> \<lparr>commune = (if truthy_str c then c else None), properties = props\<rparr>)\<rparr>)"

text \<open>Lines 162 and 163: one more sighting in a commune aggregate.\<close>

definition bump :: "string \<Rightarrow> aggregate \<Rightarrow> aggregate" where
  "bump num a =
     \<lparr>count = count a + 1,
      parcels = (if length (parcels a) < 1000 then parcels a @ [num] else parcels a)\<rparr>"

text \<open>
  Lines 161 to 164. The key of \<^verbatim>\<open>communeMap[commune]\<close> is the result of \<^verbatim>\<open>toUpperCase\<close>, a
  value of the spelling variant map or a name of the registry; none of these can be
  inherited (\<open>extract_commune_not_inherited\<close> below), so the read is that of an own
  property.
\<close>

definition count_sighting :: "builder \<Rightarrow> string \<Rightarrow> string option \<Rightarrow> builder" where
  "count_sighting st num c =
     (case c of
        None \<Rightarrow> st
      | Some name \<Rightarrow>
          if name = [] then st
          else
            case communeMap st name of
              None \<Rightarrow> st
            | Some a \<Rightarrow> st\<lparr>communeMap := (communeMap st)(name \<mapsto> bump num a)\<rparr>)"

datatype feature = Feature (feature_properties: "props option")

text \<open>
  Lines 132 to 148: the property bag of a feature (\<^verbatim>\<open>feat.properties || {}\<close>), its parcel
  identifier and its commune. A feature with a truthy identifier (line 154) is a sighting
  of that identifier; the others leave both maps as they are.
\<close>

type_synonym sighting = "string \<times> string option \<times> props"

definition sighting_of :: "string option \<Rightarrow> feature \<Rightarrow> sighting option" where
  "sighting_of inh feat =
     (let props = (case feature_properties feat of Some p \<Rightarrow> p | None \<Rightarrow> Map.empty);
          num = findNumParcel props;
          c = extract_commune inh props
      in case num of
           None \<Rightarrow> None
         | Some n \<Rightarrow> if n \<noteq> [] then Some (n, c, props) else None)"

text \<open>Lines 154 to 165, for a sighting.\<close>

fun apply_sighting :: "builder \<Rightarrow> sighting \<Rightarrow> builder" where
  "apply_sighting st (num, c, props) = count_sighting (record_sighting st num c props) num c"

text \<open>One iteration of the loop over the features, lines 131 to 166.\<close>

definition process_feature :: "builder \<Rightarrow> feature \<Rightarrow> builder" where
  "process_feature st feat =
     (case sighting_of (prototype_commune st) feat of
        None \<Rightarrow> st
      | Some s \<Rightarrow> apply_sighting st s)"

definition process_features :: "builder \<Rightarrow> feature list \<Rightarrow> builder" where
  "process_features st feats = foldl process_feature st feats"

text \<open>A selected file: its text fails to parse, or parses to a feature collection whose
  \<^verbatim>\<open>features\<close> member may be missing (\<^verbatim>\<open>gj.features || []\<close>).\<close>

datatype file_contents = InvalidJSON | FeatureCollection "feature list option"

definition features_of :: "file_contents \<Rightarrow> feature list" where
  "features_of f =
     (case f of
        InvalidJSON \<Rightarrow> []
      | FeatureCollection fs \<Rightarrow> (case fs of Some l \<Rightarrow> l | None \<Rightarrow> []))"

text \<open>One iteration of the loop over the files, lines 114 to 169: a file that does not
  parse is left by \<^verbatim>\<open>continue\<close>.\<close>

definition process_file :: "builder \<Rightarrow> file_contents \<Rightarrow> builder" where
  "process_file st f =
     (case f of
        InvalidJSON \<Rightarrow> st
      | FeatureCollection fs \<Rightarrow>
          process_features st (case fs of Some l \<Rightarrow> l | None \<Rightarrow> []))"

definition process_files :: "builder \<Rightarrow> file_contents list \<Rightarrow> builder" where
  "process_files st files = foldl process_file st files"

text \<open>Lines 106 to 112: both maps before the first file.\<close>

definition initial :: builder where
  "initial =
     \<lparr>numParcelMap = Map.empty,
      communeMap = foldl (\<lambda>m c. m(c \<mapsto> \<lparr>count = 0, parcels = []\<rparr>)) Map.empty OFFICIAL_COMMUNES,
      prototype_commune = None\<rparr>"

text \<open>\<^verbatim>\<open>main\<close>, given the contents of the selected files in selection order: the two maps
  that it writes out.\<close>

definition main :: "file_contents list \<Rightarrow> builder" where
  "main files = process_files initial files"

section \<open>Specification functions\<close>

text \<open>The direct fields in the order in which lines 137 to 142 try them, and the values
  that these lines read: those of the fields, but for a bag without an own \<^verbatim>\<open>commune\<close>
  once \<^verbatim>\<open>Object.prototype.commune\<close> is assigned.\<close>

definition direct_fields :: "string list" where
  "direct_fields = [''commune'', ''CCRCA'', ''CCRCA_1'', ''CAV'', ''Nom'', ''name'']"

definition direct_values :: "string option \<Rightarrow> props \<Rightarrow> jsval list" where
  "direct_values inh props =
     [get_commune inh props, get props ''CCRCA'', get props ''CCRCA_1'', get props ''CAV'',
      get props ''Nom'', get props ''name'']"

text \<open>The sightings of a run in processing order: each feature is resolved in the state
  that the features before it have left.\<close>

fun sightings :: "builder \<Rightarrow> feature list \<Rightarrow> sighting list" where
  "sightings st [] = []"
| "sightings st (f # fs) =
     (case sighting_of (prototype_commune st) f of None \<Rightarrow> [] | Some s \<Rightarrow> [s])
     @ sightings (process_feature st f) fs"

text \<open>All features of the files that parse, in processing order.\<close>

definition all_features :: "file_contents list \<Rightarrow> feature list" where
  "all_features files = concat (map features_of files)"

text \<open>The identifiers of the sightings attributed to a commune, in processing order.\<close>

definition attributed :: "string \<Rightarrow> sighting list \<Rightarrow> string list" where
  "attributed name ss = map fst (filter (\<lambda>s. fst (snd s) = Some name) ss)"

text \<open>An aggregate after the sightings \<open>nums\<close> have been attributed to it.\<close>

definition bump_all :: "string list \<Rightarrow> aggregate \<Rightarrow> aggregate" where
  "bump_all nums a =
     \<lparr>count = count a + length nums,
      parcels = parcels a @ take (1000 - length (parcels a)) nums\<rparr>"

text \<open>The sightings of one identifier, in processing order.\<close>

definition sightings_of_id :: "string \<Rightarrow> sighting list \<Rightarrow> sighting list" where
  "sightings_of_id num ss = filter (\<lambda>s. fst s = num) ss"

text \<open>The first truthy commune of a list of communes, \<^verbatim>\<open>null\<close> when there is none.\<close>

definition first_commune :: "string option list \<Rightarrow> string option" where
  "first_commune cs = (case List.find truthy_str cs of Some c \<Rightarrow> c | None \<Rightarrow> None)"

section \<open>Property bags of the examples\<close>

definition scenario_1 :: props where
  "scenario_1 = [''Num_parcel'' \<mapsto> JString ''A1'', ''commune'' \<mapsto> JString ''dindefello'']"

definition scenario_2 :: props where
  "scenario_2 = [''Num_parcel'' \<mapsto> JString ''A1'']"

definition scenario_3 :: props where
  "scenario_3 = [''IDPARCEL'' \<mapsto> JString ''B2'', ''CCRCA'' \<mapsto> JString ''KOAR'']"

definition koar_A1 :: props where
  "koar_A1 = [''Num_parcel'' \<mapsto> JString ''A1'', ''commune'' \<mapsto> JString ''KOAR'']"

definition xyz_A1 :: props where
  "xyz_A1 = [''Num_parcel'' \<mapsto> JString ''A1'', ''commune'' \<mapsto> JString ''xyz'']"

definition blank_A1 :: props where
  "blank_A1 = [''Num_parcel'' \<mapsto> JString ''A1'', ''commune'' \<mapsto> JString '' '']"

definition blank_koar :: props where
  "blank_koar = [''commune'' \<mapsto> JString '' '', ''source_file'' \<mapsto> JString ''KOAR.geojson'']"

definition sinthiou_C3 :: props where
  "sinthiou_C3 =
     [''source_file'' \<mapsto> JString ''unjoined_parcels_SINTHIOU_MALEME.geojson'',
      ''Num_parcel'' \<mapsto> JString ''C3'']"

section \<open>Strings and canonical names\<close>

lemma normalizeName_unfold:
  "normalizeName v =
     (if \<not> truthy v then None
      else
        let normalized = toUpperCase (trim (ToString v)) in
        case map_of COMMUNE_SPELLING_VARIANTS normalized of
          Some canonical \<Rightarrow> if canonical \<noteq> [] then Some canonical else Some normalized
        | None \<Rightarrow> Some normalized)"
  by (simp add: normalizeName_def normalizeName_with_def)

lemma extractCommuneFromSourceFile_unfold:
  "extractCommuneFromSourceFile sourceFile =
     (if \<not> truthy sourceFile then None
      else
        let normalized = toUpperCase (ToString sourceFile) in
        case List.find (\<lambda>c. str_includes normalized c) OFFICIAL_COMMUNES of
          Some c \<Rightarrow> Some c
        | None \<Rightarrow>
            List.find (\<lambda>c. str_includes normalized (replace_spaces c)) OFFICIAL_COMMUNES)"
  by (simp add: extractCommuneFromSourceFile_def extractCommuneFromSourceFile_with_def)

lemma extract_commune_unfold:
  "extract_commune inh props =
     (let c = normalizeName (direct_commune_value inh props) in
      if \<not> truthy_str c \<and> truthy (get props ''source_file'')
      then extractCommuneFromSourceFile (get props ''source_file'')
      else c)"
  unfolding extract_commune_def extract_commune_with_def normalizeName_def
    extractCommuneFromSourceFile_def ..

lemma toUpperCase_char_idem: "toUpperCase_char (toUpperCase_char c) = toUpperCase_char c"
  by (simp add: toUpperCase_char_def)

lemma toUpperCase_idem: "toUpperCase (toUpperCase s) = toUpperCase s"
  by (simp add: toUpperCase_def toUpperCase_char_idem)

lemma is_space_toUpperCase_char: "is_space (toUpperCase_char c) = is_space c"
  by (simp add: is_space_def toUpperCase_char_def)

lemma dropWhile_space_toUpperCase:
  "dropWhile is_space (toUpperCase s) = toUpperCase (dropWhile is_space s)"
  by (induction s) (simp_all add: toUpperCase_def is_space_toUpperCase_char)

lemma rev_toUpperCase: "rev (toUpperCase s) = toUpperCase (rev s)"
  by (simp add: toUpperCase_def rev_map)

lemma trim_toUpperCase: "trim (toUpperCase s) = toUpperCase (trim s)"
  unfolding trim_def
  by (simp only: dropWhile_space_toUpperCase rev_toUpperCase)

lemma dropWhile_rev_dropWhile:
  "dropWhile P (rev (dropWhile P (rev (dropWhile P s)))) = rev (dropWhile P (rev (dropWhile P s)))"
proof (cases "dropWhile P s")
  case Nil
  show ?thesis unfolding Nil by simp
next
  case (Cons a as)
  then have na: "\<not> P a" by (metis hd_dropWhile list.distinct(1) list.sel(1))
  have ys: "dropWhile P (rev (a # as)) = dropWhile P (rev as) @ [a]"
    using na by (simp add: dropWhile_append3)
  show ?thesis unfolding Cons ys using na by simp
qed

lemma trim_idem: "trim (trim s) = trim s"
  unfolding trim_def by (simp add: dropWhile_rev_dropWhile)

lemma variants_lookup:
  "map_of COMMUNE_SPELLING_VARIANTS s =
     (if s = ''DINDEFELLO'' then Some ''DINDEFELO''
      else if s = ''FONGOLEMBI'' then Some ''FONGOLIMBI'' else None)"
  by (simp add: COMMUNE_SPELLING_VARIANTS_def)

lemmas eval_string = trim_def is_space_def toUpperCase_def toUpperCase_char_def variants_lookup

lemma trim_spaces_around:
  assumes "\<forall>c\<in>set pre. is_space c" "\<forall>c\<in>set post. is_space c"
  shows "trim (pre @ s @ post) = trim s"
proof -
  have 1: "dropWhile is_space (pre @ s @ post) = dropWhile is_space (s @ post)"
    using assms(1) by (simp add: dropWhile_append2)
  have 2: "dropWhile is_space (rev (dropWhile is_space (s @ post)))
         = dropWhile is_space (rev (dropWhile is_space s))"
  proof (cases "\<forall>c\<in>set s. is_space c")
    case True
    then have e: "dropWhile is_space (s @ post) = []" "dropWhile is_space s = []"
      using assms(2) by auto
    show ?thesis by (simp only: e)
  next
    case False
    then have "dropWhile is_space (s @ post) = dropWhile is_space s @ post"
      by (auto simp: dropWhile_append)
    moreover have "dropWhile is_space (rev post @ ys) = dropWhile is_space ys" for ys
      using assms(2) by (intro dropWhile_append2) auto
    ultimately show ?thesis by simp
  qed
  show ?thesis unfolding trim_def by (simp only: 1 2)
qed

lemma normalizeName_dindefello:
  assumes "toUpperCase s = ''DINDEFELLO''" "\<forall>c\<in>set pre. is_space c" "\<forall>c\<in>set post. is_space c"
  shows "normalizeName (JString (pre @ s @ post)) = Some ''DINDEFELO''"
proof -
  have "s \<noteq> []" using assms(1) by (auto simp: toUpperCase_def)
  moreover have "toUpperCase (trim (pre @ s @ post)) = trim ''DINDEFELLO''"
    using assms by (simp add: trim_spaces_around trim_toUpperCase [symmetric])
  moreover have "trim ''DINDEFELLO'' = ''DINDEFELLO''" by (simp add: trim_def is_space_def)
  ultimately show ?thesis by (simp add: normalizeName_unfold variants_lookup)
qed

section \<open>The name canonicalizer\<close>

lemma normalizeName_with_falsy: "\<not> truthy v \<Longrightarrow> normalizeName_with tr up v = None"
  by (simp add: normalizeName_with_def)

lemma normalizeName_with_truthy:
  "truthy v \<Longrightarrow>
   normalizeName_with tr up v =
     Some (case map_of COMMUNE_SPELLING_VARIANTS (up (tr (ToString v))) of
             Some canonical \<Rightarrow> canonical
           | None \<Rightarrow> up (tr (ToString v)))"
  by (simp add: normalizeName_with_def variants_lookup)

lemma official_not_variant:
  assumes "name \<in> set OFFICIAL_COMMUNES"
  shows "name \<noteq> []" and "map_of COMMUNE_SPELLING_VARIANTS name = None"
proof -
  have "list_all (\<lambda>name. name \<noteq> [] \<and> map_of COMMUNE_SPELLING_VARIANTS name = None)
          OFFICIAL_COMMUNES"
    by (simp add: OFFICIAL_COMMUNES_def variants_lookup)
  with assms show "name \<noteq> []" and "map_of COMMUNE_SPELLING_VARIANTS name = None"
    unfolding list_all_iff by blast+
qed

lemma normalizeName_with_official:
  assumes "\<forall>name \<in> set OFFICIAL_COMMUNES. up (tr name) = name"
    and "name \<in> set OFFICIAL_COMMUNES"
  shows "normalizeName_with tr up (JString name) = Some name"
proof -
  from assms have "up (tr name) = name" by blast
  with official_not_variant [OF assms(2)] show ?thesis
    by (simp add: normalizeName_with_truthy)
qed

lemma normalizeName_with_idem:
  assumes fp: "\<forall>s. up (tr (up (tr s))) = up (tr s)"
    and off: "\<forall>name \<in> set OFFICIAL_COMMUNES. up (tr name) = name"
    and res: "normalizeName_with tr up v = Some r" and ne: "r \<noteq> []"
  shows "normalizeName_with tr up (JString r) = Some r"
proof -
  let ?n = "up (tr (ToString v))"
  from res have tv: "truthy v" by (auto simp: normalizeName_with_def split: if_splits)
  consider "?n = ''DINDEFELLO''" | "?n = ''FONGOLEMBI''"
    | "?n \<noteq> ''DINDEFELLO''" "?n \<noteq> ''FONGOLEMBI''"
    by blast
  then show ?thesis
  proof cases
    case 1
    with res tv have "r = ''DINDEFELO''" by (simp add: normalizeName_with_truthy variants_lookup)
    then have "r \<in> set OFFICIAL_COMMUNES" by (simp add: OFFICIAL_COMMUNES_def)
    with off show ?thesis by (rule normalizeName_with_official)
  next
    case 2
    with res tv have "r = ''FONGOLIMBI''" by (simp add: normalizeName_with_truthy variants_lookup)
    then have "r \<in> set OFFICIAL_COMMUNES" by (simp add: OFFICIAL_COMMUNES_def)
    with off show ?thesis by (rule normalizeName_with_official)
  next
    case 3
    with res tv have r: "r = ?n" by (simp add: normalizeName_with_truthy variants_lookup)
    from fp have "up (tr r) = r" unfolding r by blast
    moreover have "map_of COMMUNE_SPELLING_VARIANTS r = None" using 3 by (simp add: r variants_lookup)
    ultimately show ?thesis using ne by (simp add: normalizeName_with_truthy)
  qed
qed

lemma canonical_form_fixed:
  "toUpperCase (trim (toUpperCase (trim s))) = toUpperCase (trim s)"
  by (simp add: trim_toUpperCase trim_idem toUpperCase_idem)

lemma official_fixed: "\<forall>name \<in> set OFFICIAL_COMMUNES. toUpperCase (trim name) = name"
proof -
  have "list_all (\<lambda>name. toUpperCase (trim name) = name) OFFICIAL_COMMUNES"
    by (simp add: OFFICIAL_COMMUNES_def eval_string)
  then show ?thesis by (simp only: list_all_iff)
qed

text \<open>
  C6. \<^verbatim>\<open>normalizeName\<close> returns \<^verbatim>\<open>null\<close> exactly when its argument is falsy: \<^verbatim>\<open>undefined\<close>,
  \<^verbatim>\<open>null\<close>, the empty string, \<^verbatim>\<open>false\<close> or the number zero. For every other scalar it
  returns a string: the argument as a string, trimmed and in upper case, or the value that
  the spelling variant map gives for that string. This holds whatever the library's
  \<^verbatim>\<open>trim\<close> and \<^verbatim>\<open>toUpperCase\<close> do.
\<close>

theorem normalizeName_null_iff_falsy:
  "(normalizeName_with tr up v = None \<longleftrightarrow> \<not> truthy v) \<and>
   (\<not> truthy v \<longleftrightarrow> v \<in> {JUndefined, JNull, JString [], JBool False, JNumber ''0''}) \<and>
   (truthy v \<longrightarrow>
      normalizeName_with tr up v =
        Some (case map_of COMMUNE_SPELLING_VARIANTS (up (tr (ToString v))) of
                Some canonical \<Rightarrow> canonical
              | None \<Rightarrow> up (tr (ToString v))))"
proof (intro conjI impI)
  show "normalizeName_with tr up v = None \<longleftrightarrow> \<not> truthy v"
    by (simp add: normalizeName_with_def Let_def split: option.splits)
  show "\<not> truthy v \<longleftrightarrow> v \<in> {JUndefined, JNull, JString [], JBool False, JNumber ''0''}"
    by (cases v) auto
  assume "truthy v"
  then show "normalizeName_with tr up v =
        Some (case map_of COMMUNE_SPELLING_VARIANTS (up (tr (ToString v))) of
                Some canonical \<Rightarrow> canonical
              | None \<Rightarrow> up (tr (ToString v)))"
    by (rule normalizeName_with_truthy)
qed

theorem normalizeName_null_iff_falsy_witness:
  "truthy (JNumber ''12'') \<and> normalizeName_with trim toUpperCase (JNumber ''12'') = Some ''12'' \<and>
   truthy (JBool True) \<and> normalizeName_with trim toUpperCase (JBool True) = Some ''TRUE'' \<and>
   truthy (JString '' Fongolembi '') \<and>
   normalizeName_with trim toUpperCase (JString '' Fongolembi '') = Some ''FONGOLIMBI''"
  using normalizeName_null_iff_falsy [of trim toUpperCase "JNumber ''12''"]
    normalizeName_null_iff_falsy [of trim toUpperCase "JBool True"]
    normalizeName_null_iff_falsy [of trim toUpperCase "JString '' Fongolembi ''"]
  by (simp add: variants_lookup trim_def is_space_def toUpperCase_def toUpperCase_char_def)

text \<open>The booleans and the numbers are not all mapped to a string: \<^verbatim>\<open>false\<close> and \<^verbatim>\<open>0\<close>
  are neither \<^verbatim>\<open>null\<close>, nor empty, nor \<^verbatim>\<open>undefined\<close>, and are mapped to \<^verbatim>\<open>null\<close>.\<close>

theorem normalizeName_false_zero_counterexample:
  "normalizeName (JBool False) = None \<and> normalizeName (JNumber ''0'') = None \<and>
   JBool False \<notin> {JNull, JString [], JUndefined} \<and>
   JNumber ''0'' \<notin> {JNull, JString [], JUndefined}"
  by (simp add: normalizeName_unfold)

text \<open>
  C7. Canonicalization is idempotent on its non-empty results: a result that is a
  non-empty string is mapped to itself. Every name of the official registry is mapped to
  itself, and every non-empty string whose trimmed form in upper case is \<^verbatim>\<open>DINDEFELLO\<close>,
  that is \<^verbatim>\<open>dindefello\<close> in any letter case with any white space around it, is mapped to
  \<^verbatim>\<open>DINDEFELO\<close>. Of the library's \<^verbatim>\<open>trim\<close> and \<^verbatim>\<open>toUpperCase\<close> this uses that they leave a
  string unchanged that is already trimmed and in upper case, and that they leave the
  registry names unchanged.
\<close>

theorem normalizeName_idempotent:
  "(\<forall>s. up (tr (up (tr s))) = up (tr s)) \<and>
   (\<forall>name \<in> set OFFICIAL_COMMUNES. up (tr name) = name) \<longrightarrow>
     (normalizeName_with tr up v = Some r \<and> r \<noteq> [] \<longrightarrow>
        normalizeName_with tr up (JString r) = Some r) \<and>
     (\<forall>name \<in> set OFFICIAL_COMMUNES. normalizeName_with tr up (JString name) = Some name) \<and>
     (w \<noteq> [] \<and> up (tr w) = ''DINDEFELLO'' \<longrightarrow>
        normalizeName_with tr up (JString w) = Some ''DINDEFELO'')"
proof (intro impI conjI ballI)
  assume h: "(\<forall>s. up (tr (up (tr s))) = up (tr s)) \<and>
   (\<forall>name \<in> set OFFICIAL_COMMUNES. up (tr name) = name)"
  show "normalizeName_with tr up (JString r) = Some r"
    if "normalizeName_with tr up v = Some r \<and> r \<noteq> []"
    using h that normalizeName_with_idem [of up tr v r] by blast
  show "normalizeName_with tr up (JString name) = Some name"
    if "name \<in> set OFFICIAL_COMMUNES" for name
    using h that normalizeName_with_official [of up tr name] by blast
  show "normalizeName_with tr up (JString w) = Some ''DINDEFELO''"
    if "w \<noteq> [] \<and> up (tr w) = ''DINDEFELLO''"
    using that by (simp add: normalizeName_with_truthy variants_lookup)
qed

theorem normalizeName_idempotent_witness:
  "normalizeName_with trim toUpperCase (JString ''fongolembi'') = Some ''FONGOLIMBI'' \<and>
   normalizeName_with trim toUpperCase (JString ''FONGOLIMBI'') = Some ''FONGOLIMBI'' \<and>
   normalizeName_with trim toUpperCase (JString ''xyz '') = Some ''XYZ'' \<and>
   normalizeName_with trim toUpperCase (JString ''XYZ'') = Some ''XYZ'' \<and>
   ''KOAR'' \<in> set OFFICIAL_COMMUNES \<and>
   normalizeName_with trim toUpperCase (JString ''KOAR'') = Some ''KOAR'' \<and>
   toUpperCase (trim ('' '' @ ''DinDefello'' @ [CHR 0x09, CHR '' ''])) = ''DINDEFELLO'' \<and>
   normalizeName_with trim toUpperCase (JString ('' '' @ ''DinDefello'' @ [CHR 0x09, CHR '' '']))
     = Some ''DINDEFELO''"
proof -
  have h: "(\<forall>s. toUpperCase (trim (toUpperCase (trim s))) = toUpperCase (trim s)) \<and>
   (\<forall>name \<in> set OFFICIAL_COMMUNES. toUpperCase (trim name) = name)"
    using canonical_form_fixed official_fixed by blast
  have 1: "normalizeName_with trim toUpperCase (JString ''fongolembi'') = Some ''FONGOLIMBI''"
    by (simp add: normalizeName_with_def eval_string)
  have 2: "normalizeName_with trim toUpperCase (JString ''xyz '') = Some ''XYZ''"
    by (simp add: normalizeName_with_def eval_string)
  have 3: "''KOAR'' \<in> set OFFICIAL_COMMUNES" by (simp add: OFFICIAL_COMMUNES_def)
  have 4: "toUpperCase (trim ('' '' @ ''DinDefello'' @ [CHR 0x09, CHR '' ''])) = ''DINDEFELLO''"
    by (simp add: eval_string)
  note t = normalizeName_idempotent [of toUpperCase trim "JString ''fongolembi''" "''FONGOLIMBI''"
      "'' '' @ ''DinDefello'' @ [CHR 0x09, CHR '' '']"]
  note u = normalizeName_idempotent [of toUpperCase trim "JString ''xyz ''" "''XYZ''"
      "'' '' @ ''DinDefello'' @ [CHR 0x09, CHR '' '']"]
  from t h 1 have a: "normalizeName_with trim toUpperCase (JString ''FONGOLIMBI'') = Some ''FONGOLIMBI''"
    by simp
  from u h 2 have b: "normalizeName_with trim toUpperCase (JString ''XYZ'') = Some ''XYZ''"
    by simp
  from t h 3 have c: "normalizeName_with trim toUpperCase (JString ''KOAR'') = Some ''KOAR''"
    by blast
  from t h 4 have d: "normalizeName_with trim toUpperCase
      (JString ('' '' @ ''DinDefello'' @ [CHR 0x09, CHR '' ''])) = Some ''DINDEFELO''"
    by simp
  from 1 a 2 b 3 c 4 d show ?thesis by (intro conjI)
qed

text \<open>A string of whitespace only is mapped to the empty string, which is not
  \<^verbatim>\<open>null\<close>, and the empty string is mapped to \<^verbatim>\<open>null\<close>.\<close>

theorem normalizeName_blank_counterexample:
  "normalizeName (JString ''  '') = Some [] \<and> normalizeName (JString []) = None"
  by (simp add: normalizeName_unfold variants_lookup trim_def is_space_def toUpperCase_def)

section \<open>The commune extractor\<close>

lemma str_includes_sublist: "str_includes s t \<longleftrightarrow> sublist t s"
  by (induction s) (simp_all add: sublist_Cons_right)

lemma str_includes_fun: "str_includes s = (\<lambda>t. sublist t s)"
  by (rule ext) (rule str_includes_sublist)

lemma direct_values_own: "direct_values None props = map (get props) direct_fields"
  by (simp add: direct_values_def direct_fields_def get_commune_def get_def split: option.splits)

lemma direct_commune_value_find:
  "direct_commune_value inh props =
     (case List.find truthy (direct_values inh props) of Some v \<Rightarrow> v | None \<Rightarrow> get props ''name'')"
  by (simp add: direct_commune_value_def direct_values_def js_or_def)

lemma find_truthy: "List.find truthy vs = Some v \<Longrightarrow> truthy v"
  by (auto simp: find_Some_iff)

lemma find_truthy_None:
  "List.find truthy (direct_values inh props) = None \<Longrightarrow> \<not> truthy (get props ''name'')"
  unfolding find_None_iff by (auto simp: direct_values_def)

lemma extractCommune_SINTHIOU:
  "extractCommuneFromSourceFile (JString ''unjoined_parcels_SINTHIOU_MALEME.geojson'') = Some ''SINTHIOU MALEME''"
  by (simp add: extractCommuneFromSourceFile_unfold eval_string OFFICIAL_COMMUNES_def replace_spaces_def)

lemma extractCommune_KOAR:
  "extractCommuneFromSourceFile (JString ''KOAR.geojson'') = Some ''KOAR''"
  by (simp add: extractCommuneFromSourceFile_unfold eval_string OFFICIAL_COMMUNES_def replace_spaces_def)

text \<open>The extractor on the values read, in every state.\<close>

lemma extract_commune_with_cases:
  "extract_commune_with tr up inh props =
     (case List.find truthy (direct_values inh props) of
        Some v \<Rightarrow>
          if normalizeName_with tr up v = Some [] \<and> truthy (get props ''source_file'')
          then extractCommuneFromSourceFile_with up (get props ''source_file'')
          else normalizeName_with tr up v
      | None \<Rightarrow>
          if truthy (get props ''source_file'')
          then extractCommuneFromSourceFile_with up (get props ''source_file'')
          else None)"
proof (cases "List.find truthy (direct_values inh props)")
  case None
  then show ?thesis
    by (simp add: extract_commune_with_def direct_commune_value_find
        normalizeName_with_falsy [OF find_truthy_None [OF None]])
next
  case (Some v)
  then have "truthy v" by (rule find_truthy)
  then obtain r where r: "normalizeName_with tr up v = Some r"
    by (simp add: normalizeName_with_truthy)
  show ?thesis
    by (simp add: extract_commune_with_def direct_commune_value_find Some r)
qed

text \<open>
  C8. While \<^verbatim>\<open>Object.prototype.commune\<close> is unassigned, the commune of a bag is decided by
  its own fields. The six direct fields are tried in the order \<^verbatim>\<open>commune\<close>, \<^verbatim>\<open>CCRCA\<close>,
  \<^verbatim>\<open>CCRCA_1\<close>, \<^verbatim>\<open>CAV\<close>, \<^verbatim>\<open>Nom\<close>, \<^verbatim>\<open>name\<close>. When the first truthy value has a non-empty
  canonical form, that form is the commune and \<^verbatim>\<open>source_file\<close> is not consulted. When its
  canonical form is empty (the value is whitespace only), or when no direct field is
  truthy, a truthy \<^verbatim>\<open>source_file\<close> decides: in upper case, it is searched for the first
  registry name that it contains, and failing that for the first registry name that it
  contains with underscores for spaces. This holds whatever the library's \<^verbatim>\<open>trim\<close> and
  \<^verbatim>\<open>toUpperCase\<close> do. A bag with no truthy direct field and the source file
  \<^verbatim>\<open>unjoined_parcels_SINTHIOU_MALEME.geojson\<close> has the commune \<^verbatim>\<open>SINTHIOU MALEME\<close>.
\<close>

theorem extract_commune_priority:
  "(List.find truthy (map (get props) direct_fields) = Some v \<and>
    normalizeName_with tr up v \<noteq> Some [] \<longrightarrow>
      extract_commune_with tr up None props = normalizeName_with tr up v) \<and>
   (List.find truthy (map (get props) direct_fields) = Some v \<and>
    normalizeName_with tr up v = Some [] \<longrightarrow>
      extract_commune_with tr up None props =
        (if truthy (get props ''source_file'')
         then extractCommuneFromSourceFile_with up (get props ''source_file'') else Some [])) \<and>
   (List.find truthy (map (get props) direct_fields) = None \<longrightarrow>
      extract_commune_with tr up None props =
        (if truthy (get props ''source_file'')
         then extractCommuneFromSourceFile_with up (get props ''source_file'') else None)) \<and>
   (truthy sf \<longrightarrow>
      extractCommuneFromSourceFile_with up sf =
        (case List.find (\<lambda>name. sublist name (up (ToString sf))) OFFICIAL_COMMUNES of
           Some name \<Rightarrow> Some name
         | None \<Rightarrow>
             List.find (\<lambda>name. sublist (replace_spaces name) (up (ToString sf)))
               OFFICIAL_COMMUNES)) \<and>
   (List.find truthy (map (get props) direct_fields) = None \<and>
    get props ''source_file'' = JString ''unjoined_parcels_SINTHIOU_MALEME.geojson'' \<longrightarrow>
      extract_commune None props = Some ''SINTHIOU MALEME'')"
proof (intro conjI impI)
  assume "List.find truthy (map (get props) direct_fields) = Some v \<and>
    normalizeName_with tr up v \<noteq> Some []"
  then show "extract_commune_with tr up None props = normalizeName_with tr up v"
    by (simp add: extract_commune_with_cases direct_values_own)
next
  assume "List.find truthy (map (get props) direct_fields) = Some v \<and>
    normalizeName_with tr up v = Some []"
  then show "extract_commune_with tr up None props =
        (if truthy (get props ''source_file'')
         then extractCommuneFromSourceFile_with up (get props ''source_file'') else Some [])"
    by (simp add: extract_commune_with_cases direct_values_own)
next
  assume "List.find truthy (map (get props) direct_fields) = None"
  then show "extract_commune_with tr up None props =
        (if truthy (get props ''source_file'')
         then extractCommuneFromSourceFile_with up (get props ''source_file'') else None)"
    by (simp add: extract_commune_with_cases direct_values_own)
next
  assume "truthy sf"
  then show "extractCommuneFromSourceFile_with up sf =
        (case List.find (\<lambda>name. sublist name (up (ToString sf))) OFFICIAL_COMMUNES of
           Some name \<Rightarrow> Some name
         | None \<Rightarrow>
             List.find (\<lambda>name. sublist (replace_spaces name) (up (ToString sf)))
               OFFICIAL_COMMUNES)"
    by (simp add: extractCommuneFromSourceFile_with_def str_includes_fun str_includes_sublist
        Let_def cong: option.case_cong)
next
  assume "List.find truthy (map (get props) direct_fields) = None \<and>
    get props ''source_file'' = JString ''unjoined_parcels_SINTHIOU_MALEME.geojson''"
  then show "extract_commune None props = Some ''SINTHIOU MALEME''"
    by (simp add: extract_commune_def extract_commune_with_cases direct_values_own
        extractCommune_SINTHIOU [unfolded extractCommuneFromSourceFile_def])
qed

theorem extract_commune_priority_witness:
  "List.find truthy (map (get scenario_3) direct_fields) = Some (JString ''KOAR'') \<and>
   normalizeName_with trim toUpperCase (JString ''KOAR'') \<noteq> Some [] \<and>
   extract_commune_with trim toUpperCase None scenario_3 = Some ''KOAR'' \<and>
   List.find truthy (map (get blank_koar) direct_fields) = Some (JString '' '') \<and>
   normalizeName_with trim toUpperCase (JString '' '') = Some [] \<and>
   extract_commune_with trim toUpperCase None blank_koar = Some ''KOAR'' \<and>
   List.find truthy (map (get scenario_2) direct_fields) = None \<and>
   extract_commune_with trim toUpperCase None scenario_2 = None \<and>
   truthy (JString ''KOAR.geojson'') \<and>
   extractCommuneFromSourceFile_with toUpperCase (JString ''KOAR.geojson'') = Some ''KOAR'' \<and>
   List.find truthy (map (get sinthiou_C3) direct_fields) = None \<and>
   get sinthiou_C3 ''source_file'' = JString ''unjoined_parcels_SINTHIOU_MALEME.geojson'' \<and>
   extract_commune None sinthiou_C3 = Some ''SINTHIOU MALEME''"
proof -
  have 1: "List.find truthy (map (get scenario_3) direct_fields) = Some (JString ''KOAR'')"
    by (simp add: direct_fields_def get_def scenario_3_def)
  have 2: "normalizeName_with trim toUpperCase (JString ''KOAR'') = Some ''KOAR''"
    by (simp add: normalizeName_with_def eval_string)
  have 3: "List.find truthy (map (get blank_koar) direct_fields) = Some (JString '' '')"
    by (simp add: direct_fields_def get_def blank_koar_def)
  have 4: "normalizeName_with trim toUpperCase (JString '' '') = Some []"
    by (simp add: normalizeName_with_def eval_string)
  have 5: "get blank_koar ''source_file'' = JString ''KOAR.geojson''"
    by (simp add: get_def blank_koar_def)
  have 6: "List.find truthy (map (get scenario_2) direct_fields) = None"
    by (simp add: direct_fields_def get_def scenario_2_def)
  have 7: "get scenario_2 ''source_file'' = JUndefined"
    by (simp add: get_def scenario_2_def)
  have 8: "List.find truthy (map (get sinthiou_C3) direct_fields) = None"
    by (simp add: direct_fields_def get_def sinthiou_C3_def)
  have 9: "get sinthiou_C3 ''source_file'' = JString ''unjoined_parcels_SINTHIOU_MALEME.geojson''"
    by (simp add: get_def sinthiou_C3_def)
  have 10: "List.find (\<lambda>name. sublist name ''KOAR.GEOJSON'') OFFICIAL_COMMUNES = Some ''KOAR''"
    by (simp add: OFFICIAL_COMMUNES_def str_includes_sublist [symmetric])
  have up: "toUpperCase ''KOAR.geojson'' = ''KOAR.GEOJSON''" by (simp add: eval_string)
  note a = extract_commune_priority [of scenario_3 "JString ''KOAR''" trim toUpperCase "JString ''KOAR.geojson''"]
  note b = extract_commune_priority [of blank_koar "JString '' ''" trim toUpperCase "JString ''KOAR.geojson''"]
  note c = extract_commune_priority [of scenario_2 "JString ''KOAR''" trim toUpperCase "JString ''KOAR.geojson''"]
  note d = extract_commune_priority [of sinthiou_C3 "JString ''KOAR''" trim toUpperCase "JString ''KOAR.geojson''"]
  from a have e: "extractCommuneFromSourceFile_with toUpperCase (JString ''KOAR.geojson'') = Some ''KOAR''"
    by (simp add: up 10)
  from a 1 2 have a': "extract_commune_with trim toUpperCase None scenario_3 = Some ''KOAR''" by simp
  from b 3 4 5 e have b': "extract_commune_with trim toUpperCase None blank_koar = Some ''KOAR''" by simp
  from c 6 7 have c': "extract_commune_with trim toUpperCase None scenario_2 = None" by simp
  from d 8 9 have d': "extract_commune None sinthiou_C3 = Some ''SINTHIOU MALEME''" by blast
  from 1 2 a' 3 4 b' 6 c' e 8 9 d' show ?thesis by simp
qed

text \<open>A \<^verbatim>\<open>commune\<close> field of whitespace only is truthy, its canonical form is the empty
  string, and the commune is then taken from \<^verbatim>\<open>source_file\<close>.\<close>

theorem blank_commune_fallback_counterexample:
  "List.find truthy (map (get blank_koar) direct_fields) = Some (JString '' '') \<and>
   normalizeName (JString '' '') = Some [] \<and>
   extract_commune None blank_koar = Some ''KOAR''"
  by (simp add: direct_fields_def get_commune_def get_def blank_koar_def normalizeName_unfold
      eval_string extract_commune_unfold direct_commune_value_def js_or_def extractCommune_KOAR)

section \<open>Communes are never inherited names\<close>

text \<open>
  Every name that can be inherited has a lower case letter, and neither the result of
  \<^verbatim>\<open>toUpperCase\<close> nor a name of the registry has one. So the keys of
  \<^verbatim>\<open>COMMUNE_SPELLING_VARIANTS[normalized]\<close> and of \<^verbatim>\<open>communeMap[commune]\<close> are never
  inherited, and both reads are reads of own properties, as \<open>normalizeName\<close> and
  \<open>count_sighting\<close> have them.
\<close>

lemma toUpperCase_char_not_lower:
  "toUpperCase_char c \<notin> set ''abcdefghijklmnopqrstuvwxyz''"
  by (simp add: toUpperCase_char_def)

lemma toUpperCase_no_lower:
  "c \<in> set (toUpperCase s) \<Longrightarrow> c \<notin> set ''abcdefghijklmnopqrstuvwxyz''"
proof -
  assume "c \<in> set (toUpperCase s)"
  then obtain d where "c = toUpperCase_char d" unfolding toUpperCase_def by (metis imageE list.set_map)
  then show ?thesis by (simp only: toUpperCase_char_not_lower not_False_eq_True)
qed

lemma inherited_name_has_lower:
  assumes "may_be_inherited name"
  shows "\<exists>c \<in> set name. c \<in> set ''abcdefghijklmnopqrstuvwxyz''"
proof -
  have "list_all (list_ex (\<lambda>c. c \<in> set ''abcdefghijklmnopqrstuvwxyz''))
          (''commune'' # Object_prototype_names)"
    by (simp add: Object_prototype_names_def)
  moreover have "name \<in> set (''commune'' # Object_prototype_names)"
    using assms by (auto simp: may_be_inherited_def)
  ultimately show ?thesis unfolding list_all_iff list_ex_iff by blast
qed


lemma official_upper: "name \<in> set OFFICIAL_COMMUNES \<Longrightarrow> toUpperCase name = name"
proof -
  have "list_all (\<lambda>name. toUpperCase name = name) OFFICIAL_COMMUNES"
    by (simp add: OFFICIAL_COMMUNES_def toUpperCase_def toUpperCase_char_def)
  then show "name \<in> set OFFICIAL_COMMUNES \<Longrightarrow> toUpperCase name = name"
    unfolding list_all_iff by blast
qed

lemma official_no_lower:
  assumes "name \<in> set OFFICIAL_COMMUNES" "c \<in> set name"
  shows "c \<notin> set ''abcdefghijklmnopqrstuvwxyz''"
proof -
  have "toUpperCase name = name" using assms(1) by (rule official_upper)
  with assms(2) have "c \<in> set (toUpperCase name)" by simp
  then show ?thesis by (rule toUpperCase_no_lower)
qed

lemma normalizeName_truthy_eq:
  "truthy v \<Longrightarrow>
   normalizeName v =
     Some (case map_of COMMUNE_SPELLING_VARIANTS (toUpperCase (trim (ToString v))) of
             Some canonical \<Rightarrow> canonical
           | None \<Rightarrow> toUpperCase (trim (ToString v)))"
  by (simp add: normalizeName_unfold variants_lookup)

lemma normalizeName_no_lower:
  assumes "normalizeName v = Some r" "c \<in> set r"
  shows "c \<notin> set ''abcdefghijklmnopqrstuvwxyz''"
proof -
  let ?n = "toUpperCase (trim (ToString v))"
  from assms(1) have tv: "truthy v" by (auto simp: normalizeName_unfold split: if_splits)
  consider "?n = ''DINDEFELLO''" | "?n = ''FONGOLEMBI''" | "?n \<noteq> ''DINDEFELLO''" "?n \<noteq> ''FONGOLEMBI''"
    by blast
  then show ?thesis
  proof cases
    case 1
    with assms(1) tv have "r = ''DINDEFELO''" by (simp add: normalizeName_truthy_eq variants_lookup)
    then have "r \<in> set OFFICIAL_COMMUNES" by (simp add: OFFICIAL_COMMUNES_def)
    from this assms(2) show ?thesis by (rule official_no_lower)
  next
    case 2
    with assms(1) tv have "r = ''FONGOLIMBI''" by (simp add: normalizeName_truthy_eq variants_lookup)
    then have "r \<in> set OFFICIAL_COMMUNES" by (simp add: OFFICIAL_COMMUNES_def)
    from this assms(2) show ?thesis by (rule official_no_lower)
  next
    case 3
    with assms(1) tv have "r = ?n" by (simp add: normalizeName_truthy_eq variants_lookup)
    with assms(2) show ?thesis using toUpperCase_no_lower by blast
  qed
qed

lemma extractCommuneFromSourceFile_official:
  "extractCommuneFromSourceFile sf = Some name \<Longrightarrow> name \<in> set OFFICIAL_COMMUNES"
  unfolding extractCommuneFromSourceFile_unfold Let_def
  by (auto simp: find_Some_iff split: if_splits option.splits)

lemma extract_commune_not_inherited:
  assumes "extract_commune inh props = Some name"
  shows "\<not> may_be_inherited name"
proof
  assume "may_be_inherited name"
  then obtain c where c: "c \<in> set name" "c \<in> set ''abcdefghijklmnopqrstuvwxyz''"
    using inherited_name_has_lower by blast
  from assms consider "normalizeName (direct_commune_value inh props) = Some name"
    | "extractCommuneFromSourceFile (get props ''source_file'') = Some name"
    unfolding extract_commune_unfold Let_def by (auto split: if_splits)
  then show False
  proof cases
    case 1
    from normalizeName_no_lower [OF 1 c(1)] c(2) show False by contradiction
  next
    case 2
    from official_no_lower [OF extractCommuneFromSourceFile_official [OF 2] c(1)] c(2)
    show False by contradiction
  qed
qed

lemma toUpperCase_not_inherited: "\<not> may_be_inherited (toUpperCase s)"
  using inherited_name_has_lower toUpperCase_no_lower by blast

section \<open>The lookup builder\<close>

subsection \<open>Runs as folds over sightings\<close>

lemma process_features_Nil [simp]: "process_features st [] = st"
  by (simp add: process_features_def)

lemma process_features_Cons [simp]:
  "process_features st (f # fs) = process_features (process_feature st f) fs"
  by (simp add: process_features_def)

lemma process_features_append:
  "process_features st (fs @ gs) = process_features (process_features st fs) gs"
  by (simp add: process_features_def)

lemma process_features_sightings:
  "process_features st fs = foldl apply_sighting st (sightings st fs)"
proof (induction fs arbitrary: st)
  case Nil
  show ?case by simp
next
  case (Cons f fs)
  show ?case
    by (cases "sighting_of (prototype_commune st) f") (simp_all add: Cons process_feature_def)
qed

lemma sightings_append:
  "sightings st (fs @ gs) = sightings st fs @ sightings (process_features st fs) gs"
  by (induction fs arbitrary: st) simp_all

lemma process_file_features: "process_file st f = process_features st (features_of f)"
  by (cases f) (simp_all add: process_file_def features_of_def)

lemma process_files_features: "process_files st files = process_features st (all_features files)"
proof (induction files arbitrary: st)
  case Nil
  show ?case by (simp add: process_files_def all_features_def)
next
  case (Cons f files)
  have "process_files st (f # files) = process_files (process_file st f) files"
    by (simp add: process_files_def)
  also have "\<dots> = process_features (process_features st (features_of f)) (all_features files)"
    by (simp add: Cons process_file_features)
  also have "\<dots> = process_features st (all_features (f # files))"
    by (simp add: process_features_append all_features_def)
  finally show ?case .
qed

lemma main_sightings:
  "main files = foldl apply_sighting initial (sightings initial (all_features files))"
  by (simp add: main_def process_files_features process_features_sightings)

subsection \<open>The commune aggregates\<close>

lemma communeMap_record_sighting [simp]:
  "communeMap (record_sighting st num c props) = communeMap st"
  by (simp add: record_sighting_def split: option.splits)

lemma numParcelMap_count_sighting [simp]:
  "numParcelMap (count_sighting st num c) = numParcelMap st"
  by (simp add: count_sighting_def split: option.splits)

lemma prototype_commune_count_sighting [simp]:
  "prototype_commune (count_sighting st num c) = prototype_commune st"
  by (simp add: count_sighting_def split: option.splits)

lemma communeMap_apply_sighting:
  "communeMap (apply_sighting st (num, c, props)) name =
     (if c = Some name \<and> name \<noteq> [] then map_option (bump num) (communeMap st name)
      else communeMap st name)"
  by (auto simp: count_sighting_def split: option.splits)

lemma bump_all_Nil: "bump_all [] a = a"
  by (simp add: bump_all_def)

lemma bump_all_Cons: "bump_all (n # ns) a = bump_all ns (bump n a)"
  by (auto simp: bump_all_def bump_def take_Cons' Suc_diff_Suc)

lemma communeMap_foldl_apply_sighting:
  "name \<noteq> [] \<Longrightarrow>
   communeMap (foldl apply_sighting st ss) name =
     map_option (bump_all (attributed name ss)) (communeMap st name)"
proof (induction ss arbitrary: st)
  case Nil
  show ?case by (simp add: attributed_def bump_all_Nil option.map_ident cong: option.map_cong)
next
  case (Cons s ss)
  obtain num c props where s: "s = (num, c, props)" by (cases s)
  show ?case
    using Cons.prems
    by (simp add: Cons.IH s communeMap_apply_sighting attributed_def bump_all_Cons
        option.map_comp comp_def del: apply_sighting.simps)
qed

lemma communeMap_initial:
  "communeMap initial name =
     (if name \<in> set OFFICIAL_COMMUNES then Some \<lparr>count = 0, parcels = []\<rparr> else None)"
proof -
  have "foldl (\<lambda>m c. m(c \<mapsto> v)) m0 cs name = (if name \<in> set cs then Some v else m0 name)"
    for cs m0 and v :: aggregate
    by (induction cs arbitrary: m0) auto
  then show ?thesis by (simp add: initial_def)
qed

lemma official_nonempty: "name \<in> set OFFICIAL_COMMUNES \<Longrightarrow> name \<noteq> []"
  by (auto simp: OFFICIAL_COMMUNES_def)

lemma communeMap_main:
  assumes "name \<in> set OFFICIAL_COMMUNES"
  shows "communeMap (main files) name =
     Some \<lparr>count = length (attributed name (sightings initial (all_features files))),
           parcels = take 1000 (attributed name (sightings initial (all_features files)))\<rparr>"
  using assms
  by (simp add: main_sightings communeMap_foldl_apply_sighting official_nonempty
      communeMap_initial bump_all_def)


lemma dom_communeMap_apply_sighting:
  "dom (communeMap (apply_sighting st s)) = dom (communeMap st)"
  by (cases s) (auto simp: count_sighting_def split: option.splits if_splits)

lemma dom_communeMap_foldl:
  "dom (communeMap (foldl apply_sighting st ss)) = dom (communeMap st)"
  by (induction ss arbitrary: st) (simp_all add: dom_communeMap_apply_sighting del: apply_sighting.simps)

lemma dom_communeMap_initial: "dom (communeMap initial) = set OFFICIAL_COMMUNES"
  by (auto simp: communeMap_initial dom_def split: if_splits)

lemma dom_communeMap_main: "dom (communeMap (main files)) = set OFFICIAL_COMMUNES"
  by (simp only: main_sightings dom_communeMap_foldl dom_communeMap_initial)

subsection \<open>The parcel records\<close>

lemma numParcelMap_apply_sighting:
  "numParcelMap (apply_sighting st (num, c, props)) k =
     (if k = num then
        (case numParcelMap st num of
           Some r \<Rightarrow> Some (if \<not> truthy_str (commune r) \<and> truthy_str c then r\<lparr>commune := c\<rparr> else r)
         | None \<Rightarrow>
             if inherited (prototype_commune st) num then None
             else Some \<lparr>commune = (if truthy_str c then c else None), properties = props\<rparr>)
      else numParcelMap st k)"
  by (auto simp: record_sighting_def split: option.splits)

lemma first_commune_Cons:
  "first_commune (c # cs) = (if truthy_str c then c else first_commune cs)"
  by (simp add: first_commune_def)

lemma inherited_may_be: "inherited inh k \<Longrightarrow> may_be_inherited k"
  by (auto simp: inherited_def may_be_inherited_def)

lemma prototype_commune_apply_sighting:
  "num \<noteq> ''__proto__'' \<Longrightarrow>
   prototype_commune (apply_sighting st (num, c, props)) = prototype_commune st"
  by (simp add: record_sighting_def split: option.splits)

lemma prototype_commune_kept:
  "truthy_str (prototype_commune st) \<Longrightarrow>
   prototype_commune (apply_sighting st s) = prototype_commune st"
  by (cases s) (simp add: record_sighting_def split: option.splits)

lemma inherited_kept:
  assumes "inherited (prototype_commune st) k"
  shows "inherited (prototype_commune (apply_sighting st s)) k"
proof (cases "k \<in> set Object_prototype_names")
  case True
  then show ?thesis by (simp add: inherited_def)
next
  case False
  with assms have "truthy_str (prototype_commune st)" by (simp add: inherited_def)
  with assms show ?thesis by (simp only: prototype_commune_kept)
qed

lemma prototype_commune_initial: "prototype_commune initial = None"
  by (simp add: initial_def)

lemma numParcelMap_foldl_unsighted:
  "sightings_of_id num ss = [] \<Longrightarrow>
   numParcelMap (foldl apply_sighting st ss) num = numParcelMap st num"
proof (induction ss arbitrary: st)
  case Nil
  show ?case by simp
next
  case (Cons s ss)
  obtain n c p where s: "s = (n, c, p)" by (cases s)
  from Cons.prems have n: "n \<noteq> num" and rest: "sightings_of_id num ss = []"
    by (auto simp: s sightings_of_id_def split: if_splits)
  from n have "numParcelMap (apply_sighting st s) num = numParcelMap st num"
    by (simp add: s numParcelMap_apply_sighting del: apply_sighting.simps)
  with Cons.IH [OF rest] show ?case by simp
qed

lemma numParcelMap_foldl_inherited:
  assumes "numParcelMap st num = None" "inherited (prototype_commune st) num"
  shows "numParcelMap (foldl apply_sighting st ss) num = None"
  using assms
proof (induction ss arbitrary: st)
  case Nil
  then show ?case by simp
next
  case (Cons s ss)
  obtain n c p where s: "s = (n, c, p)" by (cases s)
  have "numParcelMap (apply_sighting st s) num = None"
    using Cons.prems by (auto simp: s numParcelMap_apply_sighting simp del: apply_sighting.simps)
  from Cons.IH [OF this inherited_kept [OF Cons.prems(2)]] show ?case by simp
qed

lemma numParcelMap_foldl_seen:
  assumes "numParcelMap st num = Some r" and "commune r \<noteq> Some []"
  shows "numParcelMap (foldl apply_sighting st ss) num =
     Some (r\<lparr>commune := first_commune (commune r # map (fst \<circ> snd) (sightings_of_id num ss))\<rparr>)"
  using assms
proof (induction ss arbitrary: st r)
  case Nil
  then show ?case by (cases "commune r") (simp_all add: sightings_of_id_def first_commune_def)
next
  case (Cons s ss)
  obtain n c p where s: "s = (n, c, p)" by (cases s)
  show ?case
  proof (cases "n = num")
    case False
    then have "numParcelMap (apply_sighting st s) num = Some r"
      using Cons.prems by (simp add: s numParcelMap_apply_sighting del: apply_sighting.simps)
    from Cons.IH [OF this Cons.prems(2)] False show ?thesis
      by (simp add: s sightings_of_id_def)
  next
    case True
    let ?r = "if \<not> truthy_str (commune r) \<and> truthy_str c then r\<lparr>commune := c\<rparr> else r"
    have 1: "numParcelMap (apply_sighting st s) num = Some ?r"
      using Cons.prems True
      by (simp add: s numParcelMap_apply_sighting del: apply_sighting.simps)
    have 2: "commune ?r \<noteq> Some []" using Cons.prems(2) by auto
    have 3: "?r\<lparr>commune := first_commune (commune ?r # cs)\<rparr>
           = r\<lparr>commune := first_commune (commune r # c # cs)\<rparr>" for cs
      using Cons.prems(2) by (cases "commune r") (auto simp: first_commune_Cons)
    from Cons.IH [OF 1 2] True show ?thesis
      by (simp add: s sightings_of_id_def 3 del: apply_sighting.simps)
  qed
qed

text \<open>An identifier without a record: its first sighting creates the record, unless the
  identifier is inherited at that moment, and then it never gets one.\<close>

lemma numParcelMap_foldl_first:
  assumes "sightings_of_id num pre = []" and "numParcelMap st num = None"
  shows "numParcelMap (foldl apply_sighting st (pre @ (num, c, p) # post)) num =
     (if inherited (prototype_commune (foldl apply_sighting st pre)) num then None
      else Some \<lparr>commune = first_commune (c # map (fst \<circ> snd) (sightings_of_id num post)),
                 properties = p\<rparr>)"
proof -
  let ?st = "foldl apply_sighting st pre"
  let ?r = "\<lparr>commune = (if truthy_str c then c else None), properties = p\<rparr>"
  have none: "numParcelMap ?st num = None"
    using numParcelMap_foldl_unsighted [OF assms(1)] assms(2) by simp
  show ?thesis
  proof (cases "inherited (prototype_commune ?st) num")
    case True
    have "numParcelMap (foldl apply_sighting ?st ((num, c, p) # post)) num = None"
      using none True by (rule numParcelMap_foldl_inherited)
    with True show ?thesis by simp
  next
    case False
    have 1: "numParcelMap (apply_sighting ?st (num, c, p)) num = Some ?r"
      using none False by (simp add: numParcelMap_apply_sighting del: apply_sighting.simps)
    have 2: "commune ?r \<noteq> Some []" by auto
    have 3: "?r\<lparr>commune := first_commune (commune ?r # cs)\<rparr>
           = \<lparr>commune = first_commune (c # cs), properties = p\<rparr>" for cs
      by (auto simp: first_commune_Cons)
    from numParcelMap_foldl_seen [OF 1 2, of post] False show ?thesis
      by (simp only: 3) (simp del: apply_sighting.simps)
  qed
qed

lemma sightings_of_id_split:
  "sightings_of_id num ss = (n, c, p) # rest \<Longrightarrow>
   \<exists>pre post. ss = pre @ (num, c, p) # post \<and> sightings_of_id num pre = [] \<and>
             rest = sightings_of_id num post \<and> n = num"
proof (induction ss)
  case Nil
  then show ?case by (simp add: sightings_of_id_def)
next
  case (Cons s ss)
  show ?case
  proof (cases "fst s = num")
    case True
    with Cons.prems have "s = (num, c, p)" "rest = sightings_of_id num ss" "n = num"
      by (auto simp: sightings_of_id_def)
    then have "s # ss = [] @ (num, c, p) # ss \<and> sightings_of_id num [] = [] \<and>
        rest = sightings_of_id num ss \<and> n = num"
      by (simp add: sightings_of_id_def)
    then show ?thesis by blast
  next
    case False
    with Cons.prems have "sightings_of_id num ss = (n, c, p) # rest"
      by (simp add: sightings_of_id_def)
    from Cons.IH [OF this] obtain pre post where
      "ss = pre @ (num, c, p) # post" "sightings_of_id num pre = []"
      "rest = sightings_of_id num post" "n = num" by blast
    with False have "s # ss = (s # pre) @ (num, c, p) # post \<and> sightings_of_id num (s # pre) = [] \<and>
        rest = sightings_of_id num post \<and> n = num"
      by (simp add: sightings_of_id_def)
    then show ?thesis by blast
  qed
qed

lemma numParcelMap_foldl_new:
  assumes "\<not> may_be_inherited num" and "numParcelMap st num = None"
  shows "numParcelMap (foldl apply_sighting st ss) num =
     (case sightings_of_id num ss of
        [] \<Rightarrow> None
      | (n, c, p) # rest \<Rightarrow>
          Some \<lparr>commune = first_commune (c # map (fst \<circ> snd) rest), properties = p\<rparr>)"
proof (cases "sightings_of_id num ss")
  case Nil
  with numParcelMap_foldl_unsighted [OF Nil, of st] assms(2) show ?thesis by simp
next
  case (Cons s rest)
  obtain n c p where s: "s = (n, c, p)" by (cases s)
  from sightings_of_id_split [OF Cons [unfolded s]] obtain pre post where
    ss: "ss = pre @ (num, c, p) # post" and pre: "sightings_of_id num pre = []"
    and rest: "rest = sightings_of_id num post" by blast
  have "\<not> inherited (prototype_commune (foldl apply_sighting st pre)) num"
    using assms(1) inherited_may_be by blast
  with numParcelMap_foldl_first [OF pre assms(2), of c p post]
  have "numParcelMap (foldl apply_sighting st ss) num =
      Some \<lparr>commune = first_commune (c # map (fst \<circ> snd) rest), properties = p\<rparr>"
    by (simp add: ss rest)
  then show ?thesis by (simp add: Cons s)
qed

lemma numParcelMap_foldl_stored:
  assumes "numParcelMap st num = None"
    and "numParcelMap (foldl apply_sighting st ss) num = Some r"
  shows "\<exists>n c p rest. sightings_of_id num ss = (n, c, p) # rest \<and>
           r = \<lparr>commune = first_commune (c # map (fst \<circ> snd) rest), properties = p\<rparr>"
proof (cases "sightings_of_id num ss")
  case Nil
  with numParcelMap_foldl_unsighted [OF Nil, of st] assms show ?thesis by simp
next
  case (Cons s rest)
  obtain n c p where s: "s = (n, c, p)" by (cases s)
  from sightings_of_id_split [OF Cons [unfolded s]] obtain pre post where
    ss: "ss = pre @ (num, c, p) # post" and pre: "sightings_of_id num pre = []"
    and rest: "rest = sightings_of_id num post" by blast
  from numParcelMap_foldl_first [OF pre assms(1), of c p post] assms(2)
  have "r = \<lparr>commune = first_commune (c # map (fst \<circ> snd) rest), properties = p\<rparr>"
    by (simp add: ss rest split: if_splits)
  with Cons s show ?thesis by blast
qed

lemma stored_commune_apply_sighting:
  assumes "\<forall>k r. numParcelMap st k = Some r \<longrightarrow> commune r \<noteq> Some []"
  shows "\<forall>k r. numParcelMap (apply_sighting st s) k = Some r \<longrightarrow> commune r \<noteq> Some []"
proof -
  obtain n c p where s: "s = (n, c, p)" by (cases s)
  show ?thesis using assms
    by (auto simp: s numParcelMap_apply_sighting split: if_splits option.splits
        simp del: apply_sighting.simps)
qed

lemma stored_commune_foldl:
  assumes "\<forall>k r. numParcelMap st k = Some r \<longrightarrow> commune r \<noteq> Some []"
  shows "\<forall>k r. numParcelMap (foldl apply_sighting st ss) k = Some r \<longrightarrow> commune r \<noteq> Some []"
  using assms
proof (induction ss arbitrary: st)
  case Nil
  then show ?case by simp
next
  case (Cons s ss)
  from Cons.IH [OF stored_commune_apply_sighting [OF Cons.prems]] show ?case by simp
qed

lemma stored_commune_reachable:
  assumes "numParcelMap (process_features initial fs) k = Some r"
  shows "commune r \<noteq> Some []"
proof -
  have "\<forall>k r. numParcelMap initial k = Some r \<longrightarrow> commune r \<noteq> Some []"
    by (simp add: initial_def)
  from stored_commune_foldl [OF this] assms show ?thesis
    by (simp add: process_features_sightings)
qed

lemma numParcelMap_foldl_kept:
  assumes "numParcelMap st num = Some r" "commune r \<noteq> Some []"
  shows "\<exists>r'. numParcelMap (foldl apply_sighting st ss) num = Some r' \<and>
            properties r' = properties r \<and> (commune r \<noteq> None \<longrightarrow> commune r' = commune r)"
proof -
  have "first_commune (commune r # cs) = commune r" if "commune r \<noteq> None" for cs
    using that assms(2) by (cases "commune r") (auto simp: first_commune_Cons)
  then show ?thesis
    by (simp add: numParcelMap_foldl_seen [OF assms])
qed

lemma numParcelMap_main:
  "\<not> may_be_inherited num \<Longrightarrow>
   numParcelMap (main files) num =
     (case sightings_of_id num (sightings initial (all_features files)) of
        [] \<Rightarrow> None
      | (n, c, p) # rest \<Rightarrow>
          Some \<lparr>commune = first_commune (c # map (fst \<circ> snd) rest), properties = p\<rparr>)"
  by (simp add: main_sightings numParcelMap_foldl_new initial_def)

lemma numParcelMap_main_unsighted:
  "sightings_of_id num (sightings initial (all_features files)) = [] \<Longrightarrow>
   numParcelMap (main files) num = None"
  by (simp add: main_sightings numParcelMap_foldl_unsighted initial_def)

lemma numParcelMap_main_stored:
  "numParcelMap (main files) num = Some r \<Longrightarrow>
   \<exists>n c p rest. sightings_of_id num (sightings initial (all_features files)) = (n, c, p) # rest \<and>
      r = \<lparr>commune = first_commune (c # map (fst \<circ> snd) rest), properties = p\<rparr>"
  by (rule numParcelMap_foldl_stored [of initial]) (simp_all add: initial_def main_sightings)

subsection \<open>The examples\<close>

lemma process_file_invalid: "process_file st InvalidJSON = st"
  by (simp add: process_file_def)

lemma dom_communeMap_reachable:
  "dom (communeMap (process_features initial fs)) = set OFFICIAL_COMMUNES"
  by (simp only: process_features_sightings dom_communeMap_foldl dom_communeMap_initial)

lemma sightings_replicate:
  assumes "\<And>inh. sighting_of inh f = Some s"
  shows "sightings st (replicate n f) = replicate n s"
  by (induction n arbitrary: st) (simp_all add: assms)

lemmas eval_sighting = sighting_of_def findNumParcel_def get_def extract_commune_unfold
  direct_commune_value_def get_commune_def js_or_def normalizeName_unfold
  extractCommuneFromSourceFile_unfold

lemma sighting_of_koar_A1:
  "sighting_of inh (Feature (Some koar_A1)) = Some (''A1'', Some ''KOAR'', koar_A1)"
  by (simp add: eval_sighting eval_string koar_A1_def)

lemma sighting_of_xyz_A1:
  "sighting_of inh (Feature (Some xyz_A1)) = Some (''A1'', Some ''XYZ'', xyz_A1)"
  by (simp add: eval_sighting eval_string xyz_A1_def)

lemma sighting_of_scenario_1:
  "sighting_of inh (Feature (Some scenario_1)) = Some (''A1'', Some ''DINDEFELO'', scenario_1)"
  by (simp add: eval_sighting eval_string scenario_1_def)

lemma sighting_of_scenario_2:
  "sighting_of None (Feature (Some scenario_2)) = Some (''A1'', None, scenario_2)"
  by (simp add: eval_sighting eval_string scenario_2_def)

lemma sighting_of_scenario_3:
  "sighting_of None (Feature (Some scenario_3)) = Some (''B2'', Some ''KOAR'', scenario_3)"
  by (simp add: eval_sighting eval_string scenario_3_def)

lemma sighting_of_blank_A1:
  "sighting_of inh (Feature (Some blank_A1)) = Some (''A1'', Some [], blank_A1)"
  by (simp add: eval_sighting eval_string blank_A1_def)

lemma A1_not_inherited: "\<not> may_be_inherited ''A1''"
  by (simp add: may_be_inherited_def Object_prototype_names_def)

lemma A1_never_inherited: "\<not> inherited inh ''A1''"
  using A1_not_inherited inherited_may_be by blast

lemma B2_not_inherited: "\<not> may_be_inherited ''B2''"
  by (simp add: may_be_inherited_def Object_prototype_names_def)

lemma prototype_commune_process_feature:
  "sighting_of (prototype_commune st) f = Some (num, c, p) \<Longrightarrow> num \<noteq> ''__proto__'' \<Longrightarrow>
   prototype_commune (process_feature st f) = prototype_commune st"
  by (simp add: process_feature_def prototype_commune_apply_sighting del: apply_sighting.simps)

lemma sightings_one_koar:
  "sightings initial (all_features [FeatureCollection (Some [Feature (Some koar_A1)])]) =
     [(''A1'', Some ''KOAR'', koar_A1)]"
  by (simp add: all_features_def features_of_def sighting_of_koar_A1)

lemma sightings_two_files:
  "sightings initial (all_features [FeatureCollection (Some [Feature (Some scenario_2)]),
       FeatureCollection (Some [Feature (Some koar_A1)])]) =
     [(''A1'', None, scenario_2), (''A1'', Some ''KOAR'', koar_A1)]"
  by (simp add: all_features_def features_of_def prototype_commune_initial
      sighting_of_scenario_2 sighting_of_koar_A1)

lemma sightings_scenario:
  "sightings initial (all_features [FeatureCollection (Some
       [Feature (Some scenario_1), Feature (Some scenario_2), Feature (Some scenario_3)])]) =
     [(''A1'', Some ''DINDEFELO'', scenario_1), (''A1'', None, scenario_2),
      (''B2'', Some ''KOAR'', scenario_3)]"
proof -
  let ?s1 = "process_feature initial (Feature (Some scenario_1))"
  let ?s2 = "process_feature ?s1 (Feature (Some scenario_2))"
  have 1: "prototype_commune ?s1 = None"
    by (simp add: prototype_commune_process_feature [OF sighting_of_scenario_1]
        prototype_commune_initial)
  have 2: "prototype_commune ?s2 = None"
    using prototype_commune_process_feature [of ?s1, OF _ _] sighting_of_scenario_2 1
    by simp
  show ?thesis
    by (simp add: all_features_def features_of_def prototype_commune_initial 1 2
        sighting_of_scenario_1 sighting_of_scenario_2 sighting_of_scenario_3)
qed

lemma sightings_blank_backfill:
  "sightings initial [Feature (Some scenario_2), Feature (Some blank_A1)] =
     [(''A1'', None, scenario_2), (''A1'', Some [], blank_A1)]"
  by (simp add: prototype_commune_initial sighting_of_scenario_2 sighting_of_blank_A1)

text \<open>
  Inherited names as identifiers. An identifier that is a built-in name of
  \<^verbatim>\<open>Object.prototype\<close> never gets a parcel record, and a sighting of \<^verbatim>\<open>__proto__\<close> with a
  commune makes every later bag without an own \<^verbatim>\<open>commune\<close> resolve to that commune.
\<close>

lemma inherited_identifier_has_no_record:
  "num \<in> set Object_prototype_names \<Longrightarrow> numParcelMap (main files) num = None"
  by (simp add: main_sightings numParcelMap_foldl_inherited initial_def inherited_def)

lemma inherited_commune_example:
  "sightings initial
     [Feature (Some [''Num_parcel'' \<mapsto> JString ''__proto__'', ''commune'' \<mapsto> JString ''KOAR'']),
      Feature (Some scenario_2)] =
     [(''__proto__'', Some ''KOAR'',
         [''Num_parcel'' \<mapsto> JString ''__proto__'', ''commune'' \<mapsto> JString ''KOAR'']),
      (''A1'', Some ''KOAR'', scenario_2)]"
proof -
  let ?p = "[''Num_parcel'' \<mapsto> JString ''__proto__'', ''commune'' \<mapsto> JString ''KOAR'']"
  have 1: "sighting_of None (Feature (Some ?p)) = Some (''__proto__'', Some ''KOAR'', ?p)"
    by (simp add: eval_sighting eval_string)
  have 2: "prototype_commune (process_feature initial (Feature (Some ?p))) = Some ''KOAR''"
    by (simp add: process_feature_def prototype_commune_initial 1 record_sighting_def
        inherited_def Object_prototype_names_def initial_def)
  have 3: "sighting_of (Some ''KOAR'') (Feature (Some scenario_2)) = Some (''A1'', Some ''KOAR'', scenario_2)"
    by (simp add: eval_sighting eval_string scenario_2_def)
  show ?thesis by (simp add: prototype_commune_initial 1 2 3)
qed

subsection \<open>The claims about the two lookups\<close>

text \<open>
  C1. One file with the three features of the scenario gives the parcel lookup with the
  two records \<^verbatim>\<open>A1\<close> (commune \<^verbatim>\<open>DINDEFELO\<close>, the property bag of the first feature) and
  \<^verbatim>\<open>B2\<close> (commune \<^verbatim>\<open>KOAR\<close>), and the commune lookup whose entries are
  \<^verbatim>\<open>{count: 1, parcels: ["A1"]}\<close> for \<^verbatim>\<open>DINDEFELO\<close>, \<^verbatim>\<open>{count: 1, parcels: ["B2"]}\<close> for
  \<^verbatim>\<open>KOAR\<close> and \<^verbatim>\<open>{count: 0, parcels: []}\<close> for the other 15 names of the registry.
\<close>

theorem concrete_scenario:
  "numParcelMap (main [FeatureCollection (Some
       [Feature (Some scenario_1), Feature (Some scenario_2), Feature (Some scenario_3)])]) =
     [''A1'' \<mapsto> \<lparr>commune = Some ''DINDEFELO'', properties = scenario_1\<rparr>,
      ''B2'' \<mapsto> \<lparr>commune = Some ''KOAR'', properties = scenario_3\<rparr>] \<and>
   scenario_1 = [''Num_parcel'' \<mapsto> JString ''A1'', ''commune'' \<mapsto> JString ''dindefello''] \<and>
   scenario_3 = [''IDPARCEL'' \<mapsto> JString ''B2'', ''CCRCA'' \<mapsto> JString ''KOAR''] \<and>
   communeMap (main [FeatureCollection (Some
       [Feature (Some scenario_1), Feature (Some scenario_2), Feature (Some scenario_3)])]) ''DINDEFELO''
     = Some \<lparr>count = 1, parcels = [''A1'']\<rparr> \<and>
   communeMap (main [FeatureCollection (Some
       [Feature (Some scenario_1), Feature (Some scenario_2), Feature (Some scenario_3)])]) ''KOAR''
     = Some \<lparr>count = 1, parcels = [''B2'']\<rparr> \<and>
   map (communeMap (main [FeatureCollection (Some
       [Feature (Some scenario_1), Feature (Some scenario_2), Feature (Some scenario_3)])]))
     (filter (\<lambda>name. name \<noteq> ''DINDEFELO'' \<and> name \<noteq> ''KOAR'') OFFICIAL_COMMUNES)
     = replicate 15 (Some \<lparr>count = 0, parcels = []\<rparr>) \<and>
   dom (communeMap (main [FeatureCollection (Some
       [Feature (Some scenario_1), Feature (Some scenario_2), Feature (Some scenario_3)])]))
     = set OFFICIAL_COMMUNES"
proof -
  let ?files = "[FeatureCollection (Some
       [Feature (Some scenario_1), Feature (Some scenario_2), Feature (Some scenario_3)])]"
  have np: "numParcelMap (main ?files) =
     [''A1'' \<mapsto> \<lparr>commune = Some ''DINDEFELO'', properties = scenario_1\<rparr>,
      ''B2'' \<mapsto> \<lparr>commune = Some ''KOAR'', properties = scenario_3\<rparr>]"
  proof
    fix k
    show "numParcelMap (main ?files) k =
     [''A1'' \<mapsto> \<lparr>commune = Some ''DINDEFELO'', properties = scenario_1\<rparr>,
      ''B2'' \<mapsto> \<lparr>commune = Some ''KOAR'', properties = scenario_3\<rparr>] k"
    proof (cases "k = ''A1'' \<or> k = ''B2''")
      case True
      then have "\<not> may_be_inherited k" using A1_not_inherited B2_not_inherited by auto
      with True show ?thesis
        by (auto simp: numParcelMap_main sightings_scenario sightings_of_id_def first_commune_def)
    next
      case False
      then have "sightings_of_id k (sightings initial (all_features ?files)) = []"
        unfolding sightings_scenario sightings_of_id_def by auto
      from numParcelMap_main_unsighted [OF this] False show ?thesis by auto
    qed
  qed
  have cm: "communeMap (main ?files) name =
     Some \<lparr>count = length (attributed name [(''A1'', Some ''DINDEFELO'', scenario_1), (''A1'', None, scenario_2),
      (''B2'', Some ''KOAR'', scenario_3)]),
           parcels = take 1000 (attributed name [(''A1'', Some ''DINDEFELO'', scenario_1), (''A1'', None, scenario_2),
      (''B2'', Some ''KOAR'', scenario_3)])\<rparr>" if "name \<in> set OFFICIAL_COMMUNES" for name
    using that by (simp only: communeMap_main sightings_scenario)
  have d: "communeMap (main ?files) ''DINDEFELO'' = Some \<lparr>count = 1, parcels = [''A1'']\<rparr>"
    by (subst cm) (simp_all add: OFFICIAL_COMMUNES_def attributed_def)
  have k: "communeMap (main ?files) ''KOAR'' = Some \<lparr>count = 1, parcels = [''B2'']\<rparr>"
    by (subst cm) (simp_all add: OFFICIAL_COMMUNES_def attributed_def)
  have o: "map (communeMap (main ?files))
     (filter (\<lambda>name. name \<noteq> ''DINDEFELO'' \<and> name \<noteq> ''KOAR'') OFFICIAL_COMMUNES)
     = replicate 15 (Some \<lparr>count = 0, parcels = []\<rparr>)"
  proof -
    have "communeMap (main ?files) name = Some \<lparr>count = 0, parcels = []\<rparr>"
      if "name \<in> set OFFICIAL_COMMUNES" "name \<noteq> ''DINDEFELO''" "name \<noteq> ''KOAR''" for name
      using that by (simp add: cm attributed_def)
    then have "map (communeMap (main ?files))
       (filter (\<lambda>name. name \<noteq> ''DINDEFELO'' \<and> name \<noteq> ''KOAR'') OFFICIAL_COMMUNES)
      = map (\<lambda>name. Some \<lparr>count = 0, parcels = []\<rparr>)
       (filter (\<lambda>name. name \<noteq> ''DINDEFELO'' \<and> name \<noteq> ''KOAR'') OFFICIAL_COMMUNES)"
      by (intro map_cong) auto
    also have "\<dots> = replicate 15 (Some \<lparr>count = 0, parcels = []\<rparr>)"
      by (simp add: OFFICIAL_COMMUNES_def eval_nat_numeral)
    finally show ?thesis .
  qed
  show ?thesis
    using np d k o by (simp add: dom_communeMap_main scenario_1_def scenario_3_def)
qed

text \<open>
  C2. The official registry has 17 names, and the keys of the commune lookup that a run
  writes are exactly these names, for every list of files. A registry name to which no
  sighting is attributed has the entry \<^verbatim>\<open>{count: 0, parcels: []}\<close>; with no file at all,
  every registry name has it.
\<close>

theorem registry_always_present:
  "length OFFICIAL_COMMUNES = 17 \<and> distinct OFFICIAL_COMMUNES \<and>
   dom (communeMap (main files)) = set OFFICIAL_COMMUNES \<and>
   (\<forall>name \<in> set OFFICIAL_COMMUNES.
      attributed name (sightings initial (all_features files)) = [] \<longrightarrow>
      communeMap (main files) name = Some \<lparr>count = 0, parcels = []\<rparr>) \<and>
   (\<forall>name \<in> set OFFICIAL_COMMUNES. communeMap (main []) name = Some \<lparr>count = 0, parcels = []\<rparr>)"
proof (intro conjI ballI impI)
  show "length OFFICIAL_COMMUNES = 17" "distinct OFFICIAL_COMMUNES"
    by (simp_all add: OFFICIAL_COMMUNES_def)
  show "dom (communeMap (main files)) = set OFFICIAL_COMMUNES"
    by (rule dom_communeMap_main)
  show "communeMap (main files) name = Some \<lparr>count = 0, parcels = []\<rparr>"
    if "name \<in> set OFFICIAL_COMMUNES" "attributed name (sightings initial (all_features files)) = []"
    for name
    using that by (simp add: communeMap_main)
  show "communeMap (main []) name = Some \<lparr>count = 0, parcels = []\<rparr>"
    if "name \<in> set OFFICIAL_COMMUNES" for name
    using that by (simp add: communeMap_main all_features_def attributed_def)
qed

theorem registry_always_present_witness:
  "''BALLOU'' \<in> set OFFICIAL_COMMUNES \<and>
   attributed ''BALLOU''
     (sightings initial (all_features [FeatureCollection (Some [Feature (Some koar_A1)])])) = [] \<and>
   communeMap (main [FeatureCollection (Some [Feature (Some koar_A1)])]) ''BALLOU'' =
     Some \<lparr>count = 0, parcels = []\<rparr> \<and>
   communeMap (main []) ''BALLOU'' = Some \<lparr>count = 0, parcels = []\<rparr>"
proof -
  have 1: "''BALLOU'' \<in> set OFFICIAL_COMMUNES" by (simp add: OFFICIAL_COMMUNES_def)
  have 2: "attributed ''BALLOU''
     (sightings initial (all_features [FeatureCollection (Some [Feature (Some koar_A1)])])) = []"
    by (simp add: sightings_one_koar attributed_def)
  from registry_always_present [of "[FeatureCollection (Some [Feature (Some koar_A1)])]"] 1 2
  show ?thesis by blast
qed

text \<open>
  C10. At the end of every run the aggregate of a registry name has as \<^verbatim>\<open>count\<close> the number
  of sightings attributed to the name, and as \<^verbatim>\<open>parcels\<close> the identifiers of the first
  \<open>min(count, 1000)\<close> of them in processing order; so \<open>parcels.length = min(count, 1000)\<close>.
\<close>

theorem parcels_prefix_of_attributed:
  "\<forall>name \<in> set OFFICIAL_COMMUNES.
     \<exists>a. communeMap (main files) name = Some a \<and>
         count a = length (attributed name (sightings initial (all_features files))) \<and>
         parcels a = take (min (count a) 1000) (attributed name (sightings initial (all_features files))) \<and>
         length (parcels a) = min (count a) 1000"
  by (simp add: communeMap_main min_def)

theorem parcels_prefix_of_attributed_witness:
  "''KOAR'' \<in> set OFFICIAL_COMMUNES \<and>
   attributed ''KOAR''
     (sightings initial (all_features [FeatureCollection (Some [Feature (Some koar_A1)])])) = [''A1''] \<and>
   communeMap (main [FeatureCollection (Some [Feature (Some koar_A1)])]) ''KOAR'' =
     Some \<lparr>count = 1, parcels = [''A1'']\<rparr>"
proof -
  have 1: "''KOAR'' \<in> set OFFICIAL_COMMUNES" by (simp add: OFFICIAL_COMMUNES_def)
  have 2: "attributed ''KOAR''
     (sightings initial (all_features [FeatureCollection (Some [Feature (Some koar_A1)])])) = [''A1'']"
    by (simp add: sightings_one_koar attributed_def)
  from parcels_prefix_of_attributed [of "[FeatureCollection (Some [Feature (Some koar_A1)])]"] 1
  obtain a where a: "communeMap (main [FeatureCollection (Some [Feature (Some koar_A1)])]) ''KOAR'' = Some a"
    "count a = length (attributed ''KOAR''
     (sightings initial (all_features [FeatureCollection (Some [Feature (Some koar_A1)])])))"
    "parcels a = take (min (count a) 1000) (attributed ''KOAR''
     (sightings initial (all_features [FeatureCollection (Some [Feature (Some koar_A1)])])))"
    by blast
  from a(2,3) have "a = \<lparr>count = 1, parcels = [''A1'']\<rparr>" by (simp add: 2)
  with a(1) 1 2 show ?thesis by simp
qed

text \<open>
  C9. A file whose text does not parse leaves both maps as they were, and the run goes on
  from there: every feature of every later file is processed, in order, as if the file had
  not been selected. With a first file that sights \<^verbatim>\<open>A1\<close> without commune, a second file
  that does not parse and a third file that sights \<^verbatim>\<open>A1\<close> in \<^verbatim>\<open>KOAR\<close>, the record of \<^verbatim>\<open>A1\<close>
  has the bag of the first file and the commune of the third, and \<^verbatim>\<open>KOAR\<close> counts one
  parcel; the first file alone gives no commune and the count 0.
\<close>

theorem invalid_file_skipped:
  "process_file st InvalidJSON = st \<and>
   process_files st (InvalidJSON # later) = process_files st later \<and>
   main (earlier @ InvalidJSON # later) = process_files (main earlier) later \<and>
   main (earlier @ InvalidJSON # later) = main (earlier @ later) \<and>
   main (earlier @ InvalidJSON # later) =
     foldl apply_sighting (main earlier) (sightings (main earlier) (all_features later)) \<and>
   numParcelMap (main [FeatureCollection (Some [Feature (Some scenario_2)])]) ''A1'' =
     Some \<lparr>commune = None, properties = scenario_2\<rparr> \<and>
   communeMap (main [FeatureCollection (Some [Feature (Some scenario_2)])]) ''KOAR'' =
     Some \<lparr>count = 0, parcels = []\<rparr> \<and>
   numParcelMap (main [FeatureCollection (Some [Feature (Some scenario_2)]), InvalidJSON,
                       FeatureCollection (Some [Feature (Some koar_A1)])]) ''A1'' =
     Some \<lparr>commune = Some ''KOAR'', properties = scenario_2\<rparr> \<and>
   communeMap (main [FeatureCollection (Some [Feature (Some scenario_2)]), InvalidJSON,
                     FeatureCollection (Some [Feature (Some koar_A1)])]) ''KOAR'' =
     Some \<lparr>count = 1, parcels = [''A1'']\<rparr>"
proof (intro conjI)
  show "process_file st InvalidJSON = st"
    by (simp add: process_file_def)
  show "process_files st (InvalidJSON # later) = process_files st later"
    by (simp add: process_files_def process_file_def)
  show 1: "main (earlier @ InvalidJSON # later) = process_files (main earlier) later"
    by (simp add: main_def process_files_def process_file_def)
  show "main (earlier @ InvalidJSON # later) = main (earlier @ later)"
    by (simp add: main_def process_files_def process_file_def)
  show "main (earlier @ InvalidJSON # later) =
     foldl apply_sighting (main earlier) (sightings (main earlier) (all_features later))"
    by (simp only: 1 process_files_features process_features_sightings)
  have koar: "''KOAR'' \<in> set OFFICIAL_COMMUNES" by (simp add: OFFICIAL_COMMUNES_def)
  have one: "sightings initial (all_features [FeatureCollection (Some [Feature (Some scenario_2)])])
      = [(''A1'', None, scenario_2)]"
    by (simp add: all_features_def features_of_def prototype_commune_initial sighting_of_scenario_2)
  have three: "sightings initial (all_features [FeatureCollection (Some [Feature (Some scenario_2)]),
       InvalidJSON, FeatureCollection (Some [Feature (Some koar_A1)])])
      = [(''A1'', None, scenario_2), (''A1'', Some ''KOAR'', koar_A1)]"
    by (simp add: all_features_def features_of_def prototype_commune_initial
        sighting_of_scenario_2 sighting_of_koar_A1)
  show "numParcelMap (main [FeatureCollection (Some [Feature (Some scenario_2)])]) ''A1'' =
     Some \<lparr>commune = None, properties = scenario_2\<rparr>"
    by (simp add: numParcelMap_main [OF A1_not_inherited] one sightings_of_id_def
        first_commune_def del: sightings.simps)
  show "communeMap (main [FeatureCollection (Some [Feature (Some scenario_2)])]) ''KOAR'' =
     Some \<lparr>count = 0, parcels = []\<rparr>"
    by (simp add: communeMap_main [OF koar] one attributed_def del: sightings.simps)
  show "numParcelMap (main [FeatureCollection (Some [Feature (Some scenario_2)]), InvalidJSON,
                       FeatureCollection (Some [Feature (Some koar_A1)])]) ''A1'' =
     Some \<lparr>commune = Some ''KOAR'', properties = scenario_2\<rparr>"
    by (simp add: numParcelMap_main [OF A1_not_inherited] three sightings_of_id_def
        first_commune_def del: sightings.simps)
  show "communeMap (main [FeatureCollection (Some [Feature (Some scenario_2)]), InvalidJSON,
                     FeatureCollection (Some [Feature (Some koar_A1)])]) ''KOAR'' =
     Some \<lparr>count = 1, parcels = [''A1'']\<rparr>"
    by (simp add: communeMap_main [OF koar] three attributed_def del: sightings.simps)
qed

text \<open>The run over the three files, from the state that the first file leaves: the third
  file is resolved and applied in that state.\<close>

theorem invalid_file_skipped_witness:
  "main ([FeatureCollection (Some [Feature (Some scenario_2)])] @ InvalidJSON #
         [FeatureCollection (Some [Feature (Some koar_A1)])]) =
     apply_sighting (main [FeatureCollection (Some [Feature (Some scenario_2)])])
       (''A1'', Some ''KOAR'', koar_A1) \<and>
   numParcelMap (main ([FeatureCollection (Some [Feature (Some scenario_2)])] @ InvalidJSON #
         [FeatureCollection (Some [Feature (Some koar_A1)])])) ''A1'' =
     Some \<lparr>commune = Some ''KOAR'', properties = scenario_2\<rparr> \<and>
   communeMap (main ([FeatureCollection (Some [Feature (Some scenario_2)])] @ InvalidJSON #
         [FeatureCollection (Some [Feature (Some koar_A1)])])) ''KOAR'' =
     Some \<lparr>count = 1, parcels = [''A1'']\<rparr>"
proof -
  let ?first = "[FeatureCollection (Some [Feature (Some scenario_2)])]"
  let ?third = "[FeatureCollection (Some [Feature (Some koar_A1)])]"
  note t = invalid_file_skipped [of "main ?first" ?third ?first]
  have s: "sightings (main ?first) (all_features ?third) = [(''A1'', Some ''KOAR'', koar_A1)]"
    by (simp add: all_features_def features_of_def sighting_of_koar_A1)
  from t have g: "main (?first @ InvalidJSON # ?third) =
      foldl apply_sighting (main ?first) (sightings (main ?first) (all_features ?third))"
    by blast
  have run: "main (?first @ InvalidJSON # ?third) =
      apply_sighting (main ?first) (''A1'', Some ''KOAR'', koar_A1)"
    unfolding g s by (simp del: apply_sighting.simps)
  from t have before: "numParcelMap (main ?first) ''A1'' = Some \<lparr>commune = None, properties = scenario_2\<rparr>"
    "communeMap (main ?first) ''KOAR'' = Some \<lparr>count = 0, parcels = []\<rparr>"
    by blast+
  have a: "numParcelMap (main (?first @ InvalidJSON # ?third)) ''A1'' =
     Some \<lparr>commune = Some ''KOAR'', properties = scenario_2\<rparr>"
    by (simp only: run numParcelMap_apply_sighting before) simp
  have b: "communeMap (main (?first @ InvalidJSON # ?third)) ''KOAR'' =
     Some \<lparr>count = 1, parcels = [''A1'']\<rparr>"
    by (simp only: run communeMap_apply_sighting before) (simp add: bump_def)
  from run a b show ?thesis by (intro conjI)
qed

text \<open>
  C4. In the output of every run the \<^verbatim>\<open>parcels\<close> array of a commune aggregate has at most
  1000 entries. Every sighting attributed to a registry commune adds one to its \<^verbatim>\<open>count\<close>,
  whether or not the identifier has been sighted before, and adds the identifier to
  \<^verbatim>\<open>parcels\<close> only while there are fewer than 1000; 1001 sightings of one identifier in
  two files give the count 1001 and 1000 entries.
\<close>

theorem parcels_capped_count_not:
  "(communeMap (main files) name = Some a \<longrightarrow> length (parcels a) \<le> 1000) \<and>
   (sighting_of (prototype_commune (process_features initial pre)) feat = Some (num, Some name, props) \<and>
    name \<in> set OFFICIAL_COMMUNES \<longrightarrow>
      (\<exists>b. communeMap (process_features initial pre) name = Some b \<and>
           communeMap (process_features initial (pre @ [feat])) name =
             Some \<lparr>count = count b + 1,
                   parcels = (if length (parcels b) < 1000 then parcels b @ [num] else parcels b)\<rparr>)) \<and>
   communeMap (main [FeatureCollection (Some (replicate 600 (Feature (Some koar_A1)))),
                     FeatureCollection (Some (replicate 401 (Feature (Some koar_A1))))]) ''KOAR''
     = Some \<lparr>count = 1001, parcels = replicate 1000 ''A1''\<rparr>"
proof (intro conjI impI)
  assume a: "communeMap (main files) name = Some a"
  then have "name \<in> set OFFICIAL_COMMUNES"
    using dom_communeMap_main [of files] by blast
  with a show "length (parcels a) \<le> 1000" by (auto simp: communeMap_main)
next
  let ?st = "process_features initial pre"
  assume h: "sighting_of (prototype_commune ?st) feat = Some (num, Some name, props) \<and>
    name \<in> set OFFICIAL_COMMUNES"
  then obtain b where b: "communeMap ?st name = Some b"
    using dom_communeMap_reachable [of pre] by blast
  have "communeMap (process_features initial (pre @ [feat])) name = Some (bump num b)"
    using h b
    by (simp add: process_features_append process_feature_def communeMap_apply_sighting
        official_nonempty del: apply_sighting.simps)
  with b show "\<exists>b. communeMap ?st name = Some b \<and>
           communeMap (process_features initial (pre @ [feat])) name =
             Some \<lparr>count = count b + 1,
                   parcels = (if length (parcels b) < 1000 then parcels b @ [num] else parcels b)\<rparr>"
    by (simp add: bump_def)
next
  let ?f = "Feature (Some koar_A1)"
  have "all_features [FeatureCollection (Some (replicate 600 ?f)),
                      FeatureCollection (Some (replicate 401 ?f))] = replicate 1001 ?f"
    by (simp add: all_features_def features_of_def replicate_add [symmetric])
  moreover have "attributed ''KOAR'' (replicate n (''A1'', Some ''KOAR'', koar_A1)) = replicate n ''A1''" for n
    by (simp add: attributed_def)
  moreover have "''KOAR'' \<in> set OFFICIAL_COMMUNES" by (simp add: OFFICIAL_COMMUNES_def)
  ultimately show "communeMap (main [FeatureCollection (Some (replicate 600 ?f)),
                     FeatureCollection (Some (replicate 401 ?f))]) ''KOAR''
     = Some \<lparr>count = 1001, parcels = replicate 1000 ''A1''\<rparr>"
    by (simp add: communeMap_main sightings_replicate [OF sighting_of_koar_A1])
qed

theorem parcels_capped_count_not_witness:
  "communeMap (main [FeatureCollection (Some [Feature (Some koar_A1)])]) ''KOAR'' =
     Some \<lparr>count = 1, parcels = [''A1'']\<rparr> \<and>
   length (parcels \<lparr>count = 1, parcels = [''A1'']\<rparr>) \<le> 1000 \<and>
   sighting_of (prototype_commune (process_features initial [])) (Feature (Some koar_A1)) =
     Some (''A1'', Some ''KOAR'', koar_A1) \<and>
   ''KOAR'' \<in> set OFFICIAL_COMMUNES \<and>
   communeMap (process_features initial []) ''KOAR'' = Some \<lparr>count = 0, parcels = []\<rparr> \<and>
   communeMap (process_features initial ([] @ [Feature (Some koar_A1)])) ''KOAR'' =
     Some \<lparr>count = 1, parcels = [''A1'']\<rparr>"
proof -
  let ?files = "[FeatureCollection (Some [Feature (Some koar_A1)])]"
  have 1: "''KOAR'' \<in> set OFFICIAL_COMMUNES" by (simp add: OFFICIAL_COMMUNES_def)
  have 2: "communeMap (main ?files) ''KOAR'' = Some \<lparr>count = 1, parcels = [''A1'']\<rparr>"
    by (simp add: communeMap_main 1 sightings_one_koar attributed_def)
  have 3: "sighting_of (prototype_commune (process_features initial [])) (Feature (Some koar_A1)) =
     Some (''A1'', Some ''KOAR'', koar_A1)"
    by (rule sighting_of_koar_A1)
  have 4: "communeMap (process_features initial []) ''KOAR'' = Some \<lparr>count = 0, parcels = []\<rparr>"
    by (simp add: communeMap_initial 1)
  note t = parcels_capped_count_not [of ?files "''KOAR''" "\<lparr>count = 1, parcels = [''A1'']\<rparr>" "[]"
      "Feature (Some koar_A1)" "''A1''" koar_A1]
  from t 2 have a: "length (parcels \<lparr>count = 1, parcels = [''A1'']\<rparr>) \<le> 1000" by blast
  from t 1 3 obtain b where b: "communeMap (process_features initial []) ''KOAR'' = Some b"
    "communeMap (process_features initial ([] @ [Feature (Some koar_A1)])) ''KOAR'' =
             Some \<lparr>count = count b + 1,
                   parcels = (if length (parcels b) < 1000 then parcels b @ [''A1''] else parcels b)\<rparr>"
    by blast
  from b(1) 4 have "b = \<lparr>count = 0, parcels = []\<rparr>" by simp
  with b(2) have c: "communeMap (process_features initial ([] @ [Feature (Some koar_A1)])) ''KOAR'' =
     Some \<lparr>count = 1, parcels = [''A1'']\<rparr>" by simp
  from 1 2 3 4 a c show ?thesis by (intro conjI)
qed

text \<open>
  C5. A sighting whose commune is a string outside the official registry changes no commune
  aggregate and adds no key. When that string is not empty and the identifier is not a
  name that can be inherited, the parcel record of the identifier has it as commune if the
  record is new or had no commune; a record that already has a commune keeps it.
\<close>

theorem unofficial_commune_not_aggregated:
  "sighting_of (prototype_commune (process_features initial pre)) feat = Some (num, Some name, props) \<and>
   name \<notin> set OFFICIAL_COMMUNES \<longrightarrow>
     communeMap (process_features initial (pre @ [feat])) = communeMap (process_features initial pre) \<and>
     (name \<noteq> [] \<and> \<not> may_be_inherited num \<longrightarrow>
        numParcelMap (process_features initial (pre @ [feat])) num =
          Some (case numParcelMap (process_features initial pre) num of
                  None \<Rightarrow> \<lparr>commune = Some name, properties = props\<rparr>
                | Some r \<Rightarrow> if commune r = None then r\<lparr>commune := Some name\<rparr> else r))"
proof (intro impI conjI)
  let ?st = "process_features initial pre"
  assume h: "sighting_of (prototype_commune ?st) feat = Some (num, Some name, props) \<and>
   name \<notin> set OFFICIAL_COMMUNES"
  then have step: "process_features initial (pre @ [feat]) = apply_sighting ?st (num, Some name, props)"
    by (simp add: process_features_append process_feature_def del: apply_sighting.simps)
  from h have none: "communeMap ?st name = None"
    using dom_communeMap_reachable [of pre] by blast
  show "communeMap (process_features initial (pre @ [feat])) = communeMap ?st"
  proof
    fix k
    show "communeMap (process_features initial (pre @ [feat])) k = communeMap ?st k"
      using none by (auto simp: step communeMap_apply_sighting simp del: apply_sighting.simps)
  qed
  assume n: "name \<noteq> [] \<and> \<not> may_be_inherited num"
  then have ni: "\<not> inherited (prototype_commune ?st) num" using inherited_may_be by blast
  show "numParcelMap (process_features initial (pre @ [feat])) num =
          Some (case numParcelMap ?st num of
                  None \<Rightarrow> \<lparr>commune = Some name, properties = props\<rparr>
                | Some r \<Rightarrow> if commune r = None then r\<lparr>commune := Some name\<rparr> else r)"
  proof (cases "numParcelMap ?st num")
    case None
    then show ?thesis using n ni
      by (simp add: step numParcelMap_apply_sighting del: apply_sighting.simps)
  next
    case (Some r)
    then have "commune r \<noteq> Some []" by (rule stored_commune_reachable)
    then have "truthy_str (commune r) \<longleftrightarrow> commune r \<noteq> None" by (cases "commune r") auto
    then show ?thesis using n Some
      by (simp add: step numParcelMap_apply_sighting del: apply_sighting.simps)
  qed
qed

theorem unofficial_commune_not_aggregated_witness:
  "sighting_of (prototype_commune (process_features initial [])) (Feature (Some xyz_A1)) =
     Some (''A1'', Some ''XYZ'', xyz_A1) \<and>
   ''XYZ'' \<notin> set OFFICIAL_COMMUNES \<and> ''XYZ'' \<noteq> [] \<and> \<not> may_be_inherited ''A1'' \<and>
   communeMap (process_features initial ([] @ [Feature (Some xyz_A1)])) =
     communeMap (process_features initial []) \<and>
   numParcelMap (process_features initial ([] @ [Feature (Some xyz_A1)])) ''A1'' =
     Some \<lparr>commune = Some ''XYZ'', properties = xyz_A1\<rparr>"
proof -
  have 1: "sighting_of (prototype_commune (process_features initial [])) (Feature (Some xyz_A1)) =
     Some (''A1'', Some ''XYZ'', xyz_A1)" by (rule sighting_of_xyz_A1)
  have 2: "''XYZ'' \<notin> set OFFICIAL_COMMUNES" by (simp add: OFFICIAL_COMMUNES_def)
  have 3: "numParcelMap (process_features initial []) ''A1'' = None" by (simp add: initial_def)
  note t = unofficial_commune_not_aggregated [of "[]" "Feature (Some xyz_A1)" "''A1''" "''XYZ''" xyz_A1]
  from t 1 2 have a: "communeMap (process_features initial ([] @ [Feature (Some xyz_A1)])) =
     communeMap (process_features initial [])" by blast
  from t 1 2 A1_not_inherited
  have "numParcelMap (process_features initial ([] @ [Feature (Some xyz_A1)])) ''A1'' =
          Some (case numParcelMap (process_features initial []) ''A1'' of
                  None \<Rightarrow> \<lparr>commune = Some ''XYZ'', properties = xyz_A1\<rparr>
                | Some r \<Rightarrow> if commune r = None then r\<lparr>commune := Some ''XYZ''\<rparr> else r)"
    by blast
  then have b: "numParcelMap (process_features initial ([] @ [Feature (Some xyz_A1)])) ''A1'' =
     Some \<lparr>commune = Some ''XYZ'', properties = xyz_A1\<rparr>"
    by (simp only: 3 option.case)
  from 1 2 A1_not_inherited a b show ?thesis by simp
qed

text \<open>A second sighting of \<^verbatim>\<open>A1\<close> with the commune \<^verbatim>\<open>XYZ\<close>, not in the registry, does
  not store \<^verbatim>\<open>XYZ\<close>: the record keeps \<^verbatim>\<open>KOAR\<close>.\<close>

theorem unofficial_commune_not_stored_counterexample:
  "sighting_of (prototype_commune (process_features initial [Feature (Some koar_A1)]))
       (Feature (Some xyz_A1)) = Some (''A1'', Some ''XYZ'', xyz_A1) \<and>
   ''XYZ'' \<notin> set OFFICIAL_COMMUNES \<and>
   numParcelMap (process_features initial [Feature (Some koar_A1), Feature (Some xyz_A1)]) ''A1'' =
     Some \<lparr>commune = Some ''KOAR'', properties = koar_A1\<rparr>"
proof -
  have "''XYZ'' \<notin> set OFFICIAL_COMMUNES" by (simp add: OFFICIAL_COMMUNES_def)
  moreover have "numParcelMap (process_features initial [Feature (Some koar_A1), Feature (Some xyz_A1)]) ''A1'' =
     Some \<lparr>commune = Some ''KOAR'', properties = koar_A1\<rparr>"
    by (simp add: process_feature_def sighting_of_koar_A1 sighting_of_xyz_A1
        numParcelMap_apply_sighting A1_never_inherited prototype_commune_apply_sighting
        del: apply_sighting.simps)
       (simp add: initial_def)
  ultimately show ?thesis by (simp add: sighting_of_xyz_A1)
qed

text \<open>
  C3. A parcel record in the output has the property bag of the first sighting of its
  identifier, and as commune the first truthy (non-null, non-empty) commune among the
  sightings of the identifier in processing order, or \<^verbatim>\<open>null\<close> when there is none. Every
  sighted identifier that is not a name that can be inherited has such a record. At any
  point of a run, a record keeps its property bag from then on, and keeps its commune once
  that is not \<^verbatim>\<open>null\<close>.
\<close>

theorem first_sighting_wins:
  "(numParcelMap (main files) num = Some r \<longrightarrow>
      (\<exists>n c p rest.
         sightings_of_id num (sightings initial (all_features files)) = (n, c, p) # rest \<and>
         r = \<lparr>commune = first_commune (c # map (fst \<circ> snd) rest), properties = p\<rparr>)) \<and>
   (\<not> may_be_inherited num \<and>
    sightings_of_id num (sightings initial (all_features files)) = (n, c, p) # rest \<longrightarrow>
      numParcelMap (main files) num =
        Some \<lparr>commune = first_commune (c # map (fst \<circ> snd) rest), properties = p\<rparr>) \<and>
   (numParcelMap (process_features initial pre) num = Some r0 \<longrightarrow>
      (\<exists>r'. numParcelMap (process_features initial (pre @ post)) num = Some r' \<and>
            properties r' = properties r0 \<and>
            (commune r0 \<noteq> None \<longrightarrow> commune r' = commune r0)))"
proof (intro conjI impI)
  assume "numParcelMap (main files) num = Some r"
  then show "\<exists>n c p rest.
         sightings_of_id num (sightings initial (all_features files)) = (n, c, p) # rest \<and>
         r = \<lparr>commune = first_commune (c # map (fst \<circ> snd) rest), properties = p\<rparr>"
    by (rule numParcelMap_main_stored)
next
  assume "\<not> may_be_inherited num \<and>
    sightings_of_id num (sightings initial (all_features files)) = (n, c, p) # rest"
  then show "numParcelMap (main files) num =
        Some \<lparr>commune = first_commune (c # map (fst \<circ> snd) rest), properties = p\<rparr>"
    by (simp add: numParcelMap_main)
next
  assume a: "numParcelMap (process_features initial pre) num = Some r0"
  have "process_features initial (pre @ post) =
      foldl apply_sighting (process_features initial pre) (sightings (process_features initial pre) post)"
    by (simp add: process_features_append process_features_sightings [of "process_features initial pre"])
  with numParcelMap_foldl_kept [OF a stored_commune_reachable [OF a]]
  show "\<exists>r'. numParcelMap (process_features initial (pre @ post)) num = Some r' \<and>
            properties r' = properties r0 \<and>
            (commune r0 \<noteq> None \<longrightarrow> commune r' = commune r0)"
    by simp
qed

theorem first_sighting_wins_witness:
  "\<not> may_be_inherited ''A1'' \<and>
   sightings_of_id ''A1'' (sightings initial (all_features
      [FeatureCollection (Some [Feature (Some scenario_2)]),
       FeatureCollection (Some [Feature (Some koar_A1)])])) =
     [(''A1'', None, scenario_2), (''A1'', Some ''KOAR'', koar_A1)] \<and>
   numParcelMap (main [FeatureCollection (Some [Feature (Some scenario_2)]),
       FeatureCollection (Some [Feature (Some koar_A1)])]) ''A1'' =
     Some \<lparr>commune = Some ''KOAR'', properties = scenario_2\<rparr> \<and>
   (\<exists>n c p rest.
      sightings_of_id ''A1'' (sightings initial (all_features
        [FeatureCollection (Some [Feature (Some scenario_2)]),
         FeatureCollection (Some [Feature (Some koar_A1)])])) = (n, c, p) # rest \<and>
      \<lparr>commune = Some ''KOAR'', properties = scenario_2\<rparr> =
        \<lparr>commune = first_commune (c # map (fst \<circ> snd) rest), properties = p\<rparr>) \<and>
   numParcelMap (process_features initial [Feature (Some koar_A1)]) ''A1'' =
     Some \<lparr>commune = Some ''KOAR'', properties = koar_A1\<rparr> \<and>
   (\<exists>r'. numParcelMap (process_features initial ([Feature (Some koar_A1)] @ [Feature (Some xyz_A1)])) ''A1''
           = Some r' \<and> properties r' = koar_A1 \<and> commune r' = Some ''KOAR'')"
proof -
  let ?files = "[FeatureCollection (Some [Feature (Some scenario_2)]),
       FeatureCollection (Some [Feature (Some koar_A1)])]"
  let ?r0 = "\<lparr>commune = Some ''KOAR'', properties = koar_A1\<rparr>"
  have 1: "sightings_of_id ''A1'' (sightings initial (all_features ?files)) =
     (''A1'', None, scenario_2) # [(''A1'', Some ''KOAR'', koar_A1)]"
    by (simp add: sightings_two_files sightings_of_id_def)
  have 2: "numParcelMap (process_features initial [Feature (Some koar_A1)]) ''A1'' = Some ?r0"
    by (simp add: process_feature_def sighting_of_koar_A1 numParcelMap_apply_sighting
        A1_never_inherited del: apply_sighting.simps) (simp add: initial_def)
  note t = first_sighting_wins [of ?files "''A1''" ?r0 "''A1''" None scenario_2
      "[(''A1'', Some ''KOAR'', koar_A1)]" "[Feature (Some koar_A1)]" ?r0 "[Feature (Some xyz_A1)]"]
  from t 1 A1_not_inherited
  have a: "numParcelMap (main ?files) ''A1'' =
     Some \<lparr>commune = first_commune (None # map (fst \<circ> snd) [(''A1'', Some ''KOAR'', koar_A1)]),
           properties = scenario_2\<rparr>"
    by blast
  have a': "numParcelMap (main ?files) ''A1'' = Some \<lparr>commune = Some ''KOAR'', properties = scenario_2\<rparr>"
    using a by (simp add: first_commune_def)
  from t 2 have b: "\<exists>r'. numParcelMap (process_features initial ([Feature (Some koar_A1)] @ [Feature (Some xyz_A1)])) ''A1''
           = Some r' \<and> properties r' = koar_A1 \<and> commune r' = Some ''KOAR''"
    by simp
  note u = first_sighting_wins [of ?files "''A1''" "\<lparr>commune = Some ''KOAR'', properties = scenario_2\<rparr>"]
  from u a' have c: "\<exists>n c p rest.
      sightings_of_id ''A1'' (sightings initial (all_features ?files)) = (n, c, p) # rest \<and>
      \<lparr>commune = Some ''KOAR'', properties = scenario_2\<rparr> =
        \<lparr>commune = first_commune (c # map (fst \<circ> snd) rest), properties = p\<rparr>"
    by blast
  from A1_not_inherited 1 a' 2 b c show ?thesis by (intro conjI) simp_all
qed

text \<open>A later sighting whose commune is the empty string, which is not \<^verbatim>\<open>null\<close>, is not
  backfilled: the stored commune stays \<^verbatim>\<open>null\<close>.\<close>

theorem blank_commune_not_backfilled_counterexample:
  "sightings initial (all_features [FeatureCollection (Some [Feature (Some scenario_2), Feature (Some blank_A1)])]) =
     [(''A1'', None, scenario_2), (''A1'', Some [], blank_A1)] \<and>
   numParcelMap (main [FeatureCollection (Some [Feature (Some scenario_2), Feature (Some blank_A1)])]) ''A1'' =
     Some \<lparr>commune = None, properties = scenario_2\<rparr>"
proof -
  have 1: "all_features [FeatureCollection (Some [Feature (Some scenario_2), Feature (Some blank_A1)])]
      = [Feature (Some scenario_2), Feature (Some blank_A1)]"
    by (simp add: all_features_def features_of_def)
  show ?thesis
    by (simp add: numParcelMap_main A1_not_inherited 1 sightings_blank_backfill
        sightings_of_id_def first_commune_def del: sightings.simps)
qed


end
